theory Spec2Isabelle
  imports Complex_Main
begin

section \<open>Python values used by the dashboard\<close>

text \<open>
  The numeric parameters of \<^verbatim>\<open>helpers.py\<close> are annotated \<^verbatim>\<open>float\<close>. A Python float is
  either a finite double, one of the two infinities, or NaN. A finite double is modelled
  by the real number it denotes; strings are byte strings in UTF-8, so a character
  outside ASCII is written as its bytes. Python's \<^verbatim>\<open>None\<close> is the \<open>None\<close> of an
  option type. An \<^verbatim>\<open>int\<close> passed where a float is expected (the JSON decoder gives one
  for a whole number) is compared by its value, so it behaves as the float of that value.
\<close>

datatype pyfloat = Finite real | PosInf | NegInf | NaN

text \<open>\<^verbatim>\<open>a <= b\<close> and \<^verbatim>\<open>a < b\<close> on floats: every comparison with NaN is false.\<close>

fun float_le :: "pyfloat \<Rightarrow> pyfloat \<Rightarrow> bool" where
  "float_le NaN _ = False"
| "float_le _ NaN = False"
| "float_le NegInf _ = True"
| "float_le _ PosInf = True"
| "float_le (Finite a) (Finite b) = (a \<le> b)"
| "float_le _ _ = False"

fun float_lt :: "pyfloat \<Rightarrow> pyfloat \<Rightarrow> bool" where
  "float_lt NaN _ = False"
| "float_lt _ NaN = False"
| "float_lt PosInf _ = False"
| "float_lt _ NegInf = False"
| "float_lt (Finite a) (Finite b) = (a < b)"
| "float_lt _ _ = True"

text \<open>\<^verbatim>\<open>math.isnan\<close>.\<close>

fun isnan :: "pyfloat \<Rightarrow> bool" where
  "isnan NaN = True"
| "isnan _ = False"

section \<open>helpers.py: the AQI classifier\<close>

text \<open>
  \<^verbatim>\<open>explain_us_aqi(aqi)\<close>: the guard \<^verbatim>\<open>aqi is None or (isinstance(aqi, float) and
  math.isnan(aqi))\<close> first, then the chain of \<^verbatim>\<open>aqi <= bound\<close> tests in source order.
\<close>

definition explain_us_aqi :: "pyfloat option \<Rightarrow> string" where
  "explain_us_aqi aqi =
     (case aqi of
        None \<Rightarrow> ''AQI data not available.''
      | Some a \<Rightarrow>
          if isnan a then ''AQI data not available.''
          else if float_le a (Finite 50) then
            ''Good '' @ [CHR 0xE2, CHR 0x80, CHR 0x93] @ '' Air quality is considered satisfactory.''
          else if float_le a (Finite 100) then
            ''Moderate '' @ [CHR 0xE2, CHR 0x80, CHR 0x93]
              @ '' Acceptable; some pollutants may affect very sensitive people.''
          else if float_le a (Finite 150) then
            ''Unhealthy for Sensitive Groups '' @ [CHR 0xE2, CHR 0x80, CHR 0x93]
              @ '' Sensitive people should reduce outdoor exertion.''
          else if float_le a (Finite 200) then
            ''Unhealthy '' @ [CHR 0xE2, CHR 0x80, CHR 0x93]
              @ '' Everyone may begin to feel adverse health effects.''
          else if float_le a (Finite 300) then
            ''Very Unhealthy '' @ [CHR 0xE2, CHR 0x80, CHR 0x93]
              @ '' Health alert; serious effects for everyone.''
          else
            ''Hazardous '' @ [CHR 0xE2, CHR 0x80, CHR 0x93]
              @ '' Emergency conditions; avoid going outside.'')"

text \<open>\<^verbatim>\<open>aqi_emoji(aqi)\<close>: the same guard and chain, returning the badge.\<close>

definition aqi_emoji :: "pyfloat option \<Rightarrow> string" where
  "aqi_emoji aqi =
     (case aqi of
        None \<Rightarrow> [CHR 0xE2, CHR 0x9A, CHR 0xAA]
      | Some a \<Rightarrow>
          if isnan a then [CHR 0xE2, CHR 0x9A, CHR 0xAA]
          else if float_le a (Finite 50) then [CHR 0xF0, CHR 0x9F, CHR 0x9F, CHR 0xA2]
          else if float_le a (Finite 100) then [CHR 0xF0, CHR 0x9F, CHR 0x9F, CHR 0xA1]
          else if float_le a (Finite 150) then [CHR 0xF0, CHR 0x9F, CHR 0x9F, CHR 0xA0]
          else if float_le a (Finite 200) then [CHR 0xF0, CHR 0x9F, CHR 0x94, CHR 0xB4]
          else if float_le a (Finite 300) then [CHR 0xF0, CHR 0x9F, CHR 0x9F, CHR 0xA3]
          else [CHR 0xE2, CHR 0x9A, CHR 0xAB])"

subsection \<open>The tiers as the specification words them\<close>

datatype tier =
  Good | Moderate | UnhealthySensitive | Unhealthy | VeryUnhealthy | Hazardous | Unknown

text \<open>
  The specification's table: each tier is given by its own pair of bounds, the lower one
  strict and the upper one inclusive; \<open>Unknown\<close> is absent or NaN.
\<close>

fun in_tier :: "tier \<Rightarrow> pyfloat option \<Rightarrow> bool" where
  "in_tier Unknown v = (v = None \<or> v = Some NaN)"
| "in_tier Good v = (case v of None \<Rightarrow> False | Some x \<Rightarrow> float_le x (Finite 50))"
| "in_tier Moderate v =
     (case v of None \<Rightarrow> False | Some x \<Rightarrow> float_lt (Finite 50) x \<and> float_le x (Finite 100))"
| "in_tier UnhealthySensitive v =
     (case v of None \<Rightarrow> False | Some x \<Rightarrow> float_lt (Finite 100) x \<and> float_le x (Finite 150))"
| "in_tier Unhealthy v =
     (case v of None \<Rightarrow> False | Some x \<Rightarrow> float_lt (Finite 150) x \<and> float_le x (Finite 200))"
| "in_tier VeryUnhealthy v =
     (case v of None \<Rightarrow> False | Some x \<Rightarrow> float_lt (Finite 200) x \<and> float_le x (Finite 300))"
| "in_tier Hazardous v = (case v of None \<Rightarrow> False | Some x \<Rightarrow> float_lt (Finite 300) x)"

text \<open>The description and the badge that the source attaches to each tier.\<close>

fun tier_text :: "tier \<Rightarrow> string" where
  "tier_text Unknown = ''AQI data not available.''"
| "tier_text Good =
     ''Good '' @ [CHR 0xE2, CHR 0x80, CHR 0x93] @ '' Air quality is considered satisfactory.''"
| "tier_text Moderate =
     ''Moderate '' @ [CHR 0xE2, CHR 0x80, CHR 0x93]
       @ '' Acceptable; some pollutants may affect very sensitive people.''"
| "tier_text UnhealthySensitive =
     ''Unhealthy for Sensitive Groups '' @ [CHR 0xE2, CHR 0x80, CHR 0x93]
       @ '' Sensitive people should reduce outdoor exertion.''"
| "tier_text Unhealthy =
     ''Unhealthy '' @ [CHR 0xE2, CHR 0x80, CHR 0x93]
       @ '' Everyone may begin to feel adverse health effects.''"
| "tier_text VeryUnhealthy =
     ''Very Unhealthy '' @ [CHR 0xE2, CHR 0x80, CHR 0x93]
       @ '' Health alert; serious effects for everyone.''"
| "tier_text Hazardous =
     ''Hazardous '' @ [CHR 0xE2, CHR 0x80, CHR 0x93]
       @ '' Emergency conditions; avoid going outside.''"

fun tier_badge :: "tier \<Rightarrow> string" where
  "tier_badge Unknown = [CHR 0xE2, CHR 0x9A, CHR 0xAA]"
| "tier_badge Good = [CHR 0xF0, CHR 0x9F, CHR 0x9F, CHR 0xA2]"
| "tier_badge Moderate = [CHR 0xF0, CHR 0x9F, CHR 0x9F, CHR 0xA1]"
| "tier_badge UnhealthySensitive = [CHR 0xF0, CHR 0x9F, CHR 0x9F, CHR 0xA0]"
| "tier_badge Unhealthy = [CHR 0xF0, CHR 0x9F, CHR 0x94, CHR 0xB4]"
| "tier_badge VeryUnhealthy = [CHR 0xF0, CHR 0x9F, CHR 0x9F, CHR 0xA3]"
| "tier_badge Hazardous = [CHR 0xE2, CHR 0x9A, CHR 0xAB]"

text \<open>The tier an input falls in, computed; used only to organise the proofs.\<close>

definition tier_of :: "pyfloat option \<Rightarrow> tier" where
  "tier_of v =
     (if in_tier Unknown v then Unknown
      else if in_tier Good v then Good
      else if in_tier Moderate v then Moderate
      else if in_tier UnhealthySensitive v then UnhealthySensitive
      else if in_tier Unhealthy v then Unhealthy
      else if in_tier VeryUnhealthy v then VeryUnhealthy
      else Hazardous)"

section \<open>helpers.py: the tip engine\<close>

text \<open>The thirteen string literals that \<^verbatim>\<open>eco_tips\<close> appends, in source order.\<close>

definition tip_comfortable :: string where
  "tip_comfortable =
     [CHR 0xF0, CHR 0x9F, CHR 0x8C, CHR 0xA1, CHR 0xEF, CHR 0xB8, CHR 0x8F]
       @ '' Comfortable temperature '' @ [CHR 0xE2, CHR 0x80, CHR 0x93]
       @ '' use fans/natural airflow instead of AC to save energy.''"

definition tip_hot :: string where
  "tip_hot =
     [CHR 0xF0, CHR 0x9F, CHR 0xA5, CHR 0xB5] @ '' It'' @ [CHR 0xE2, CHR 0x80, CHR 0x99]
       @ ''s hot '' @ [CHR 0xE2, CHR 0x80, CHR 0x93]
       @ '' close curtains during the day & use light cotton clothes before lowering AC too much.''"

definition tip_cool :: string where
  "tip_cool =
     [CHR 0xF0, CHR 0x9F, CHR 0xA5, CHR 0xB6] @ '' It'' @ [CHR 0xE2, CHR 0x80, CHR 0x99]
       @ ''s cool '' @ [CHR 0xE2, CHR 0x80, CHR 0x93]
       @ '' wear extra layers instead of relying only on room heaters.''"

definition tip_clear_sky :: string where
  "tip_clear_sky =
     [CHR 0xE2, CHR 0x98, CHR 0x80, CHR 0xEF, CHR 0xB8, CHR 0x8F] @ '' Clear sky ''
       @ [CHR 0xE2, CHR 0x80, CHR 0x93]
       @ '' perfect to dry clothes outside instead of using a dryer.''"

definition tip_daylight :: string where
  "tip_daylight =
     [CHR 0xF0, CHR 0x9F, CHR 0x94, CHR 0x86]
       @ '' Use natural daylight instead of switching on lights.''"

definition tip_cloudy :: string where
  "tip_cloudy =
     [CHR 0xE2, CHR 0x98, CHR 0x81, CHR 0xEF, CHR 0xB8, CHR 0x8F] @ '' Cloudy ''
       @ [CHR 0xE2, CHR 0x80, CHR 0x93]
       @ '' still enough daylight; keep unnecessary lights switched off.''"

definition tip_rainy :: string where
  "tip_rainy =
     [CHR 0xF0, CHR 0x9F, CHR 0x8C, CHR 0xA7, CHR 0xEF, CHR 0xB8, CHR 0x8F] @ '' Rainy ''
       @ [CHR 0xE2, CHR 0x80, CHR 0x93]
       @ '' collect some rainwater (where safe) for plants or cleaning.''"

definition tip_wintry :: string where
  "tip_wintry =
     [CHR 0xE2, CHR 0x9D, CHR 0x84, CHR 0xEF, CHR 0xB8, CHR 0x8F] @ '' Cold/wintry ''
       @ [CHR 0xE2, CHR 0x80, CHR 0x93]
       @ '' ensure windows/doors are sealed to avoid heat loss.''"

definition tip_avoid_vehicles :: string where
  "tip_avoid_vehicles =
     [CHR 0xF0, CHR 0x9F, CHR 0x9A, CHR 0x97] @ '' AQI is high ''
       @ [CHR 0xE2, CHR 0x80, CHR 0x93]
       @ '' avoid using private vehicles; prefer public transport or carpooling.''"

definition tip_wear_mask :: string where
  "tip_wear_mask =
     [CHR 0xF0, CHR 0x9F, CHR 0x98, CHR 0xB7]
       @ '' Consider wearing a mask and avoid heavy outdoor exercise.''"

definition tip_walk_cycle :: string where
  "tip_walk_cycle =
     [CHR 0xF0, CHR 0x9F, CHR 0x9A, CHR 0xB6] @ '' AQI is good ''
       @ [CHR 0xE2, CHR 0x80, CHR 0x93]
       @ '' great time to walk or cycle instead of using a vehicle.''"

definition tip_windy :: string where
  "tip_windy =
     [CHR 0xF0, CHR 0x9F, CHR 0x92, CHR 0xA8] @ '' Windy outside ''
       @ [CHR 0xE2, CHR 0x80, CHR 0x93]
       @ '' open windows for natural ventilation instead of running a fan all day.''"

definition tip_fallback :: string where
  "tip_fallback =
     [CHR 0xE2, CHR 0x9C, CHR 0x85] @ '' No special alerts '' @ [CHR 0xE2, CHR 0x80, CHR 0x93]
       @ '' follow 3Rs: Reduce, Reuse, Recycle. ''
       @ [CHR 0xE2, CHR 0x99, CHR 0xBB, CHR 0xEF, CHR 0xB8, CHR 0x8F]"

text \<open>
  \<^verbatim>\<open>eco_tips(temp_c, weather_code, aqi, wind_speed)\<close>. The list \<^verbatim>\<open>tips\<close> is threaded
  through the four rule blocks in source order; \<^verbatim>\<open>18 <= temp_c <= 28\<close> is the
  conjunction of its two comparisons, \<^verbatim>\<open>x > c\<close> is \<^verbatim>\<open>c < x\<close>. The weather code is an
  \<^verbatim>\<open>int\<close>; AQI and wind speed may be \<^verbatim>\<open>None\<close>, which the source tests for.
\<close>

definition eco_tips :: "pyfloat \<Rightarrow> int \<Rightarrow> pyfloat option \<Rightarrow> pyfloat option \<Rightarrow> string list" where
  "eco_tips temp_c weather_code aqi wind_speed =
     (let tips = [];
          tips =
            (if float_le (Finite 18) temp_c \<and> float_le temp_c (Finite 28)
               then tips @ [tip_comfortable]
             else if float_lt (Finite 30) temp_c then tips @ [tip_hot]
             else if float_lt temp_c (Finite 15) then tips @ [tip_cool]
             else tips);
          tips =
            (if weather_code = 0 \<or> weather_code = 1 then tips @ [tip_clear_sky] @ [tip_daylight]
             else if weather_code = 2 \<or> weather_code = 3 then tips @ [tip_cloudy]
             else if (51 \<le> weather_code \<and> weather_code \<le> 67)
                     \<or> (80 \<le> weather_code \<and> weather_code \<le> 82) then tips @ [tip_rainy]
             else if (71 \<le> weather_code \<and> weather_code \<le> 77)
                     \<or> (85 \<le> weather_code \<and> weather_code \<le> 86) then tips @ [tip_wintry]
             else tips);
          tips =
            (case aqi of
               None \<Rightarrow> tips
             | Some a \<Rightarrow>
                 if isnan a then tips
                 else if float_lt (Finite 150) a
                   then tips @ [tip_avoid_vehicles] @ [tip_wear_mask]
                 else if float_le a (Finite 50) then tips @ [tip_walk_cycle]
                 else tips);
          tips =
            (case wind_speed of
               None \<Rightarrow> tips
             | Some w \<Rightarrow> if float_lt (Finite 6) w then tips @ [tip_windy] else tips)
      in if tips = [] then tips @ [tip_fallback] else tips)"

text \<open>
  The rule guards as the specification words them, one predicate per category, for
  stating when no rule fires.
\<close>

definition temperature_rule_fires :: "pyfloat \<Rightarrow> bool" where
  "temperature_rule_fires t \<longleftrightarrow>
     (float_le (Finite 18) t \<and> float_le t (Finite 28)) \<or> float_lt (Finite 30) t
       \<or> float_lt t (Finite 15)"

definition weather_rule_fires :: "int \<Rightarrow> bool" where
  "weather_rule_fires c \<longleftrightarrow>
     c \<in> {0, 1} \<or> c \<in> {2, 3} \<or> c \<in> {51..67} \<or> c \<in> {80..82} \<or> c \<in> {71..77} \<or> c \<in> {85..86}"

definition aqi_rule_fires :: "pyfloat option \<Rightarrow> bool" where
  "aqi_rule_fires aqi \<longleftrightarrow>
     (case aqi of None \<Rightarrow> False | Some a \<Rightarrow> float_lt (Finite 150) a \<or> float_le a (Finite 50))"

definition wind_rule_fires :: "pyfloat option \<Rightarrow> bool" where
  "wind_rule_fires w \<longleftrightarrow> (case w of None \<Rightarrow> False | Some x \<Rightarrow> float_lt (Finite 6) x)"

text \<open>
  The tips each rule block contributes, block by block; used only to organise the proofs
  about \<^verbatim>\<open>eco_tips\<close>.
\<close>

definition temperature_tips :: "pyfloat \<Rightarrow> string list" where
  "temperature_tips t =
     (if float_le (Finite 18) t \<and> float_le t (Finite 28) then [tip_comfortable]
      else if float_lt (Finite 30) t then [tip_hot]
      else if float_lt t (Finite 15) then [tip_cool]
      else [])"

definition weather_tips :: "int \<Rightarrow> string list" where
  "weather_tips c =
     (if c = 0 \<or> c = 1 then [tip_clear_sky, tip_daylight]
      else if c = 2 \<or> c = 3 then [tip_cloudy]
      else if (51 \<le> c \<and> c \<le> 67) \<or> (80 \<le> c \<and> c \<le> 82) then [tip_rainy]
      else if (71 \<le> c \<and> c \<le> 77) \<or> (85 \<le> c \<and> c \<le> 86) then [tip_wintry]
      else [])"

definition aqi_tips :: "pyfloat option \<Rightarrow> string list" where
  "aqi_tips aqi =
     (case aqi of
        None \<Rightarrow> []
      | Some a \<Rightarrow>
          if isnan a then []
          else if float_lt (Finite 150) a then [tip_avoid_vehicles, tip_wear_mask]
          else if float_le a (Finite 50) then [tip_walk_cycle]
          else [])"

definition wind_tips :: "pyfloat option \<Rightarrow> string list" where
  "wind_tips w =
     (case w of None \<Rightarrow> [] | Some x \<Rightarrow> if float_lt (Finite 6) x then [tip_windy] else [])"

section \<open>helpers.py: the pollutant summary\<close>

text \<open>
  A Python dictionary whose values may be \<^verbatim>\<open>None\<close> is a map into an option type;
  \<^verbatim>\<open>d.get(k)\<close> is \<^verbatim>\<open>None\<close> both for a missing key and for a key bound to \<^verbatim>\<open>None\<close>.
\<close>

definition dict_get :: "('k \<rightharpoonup> 'v option) \<Rightarrow> 'k \<Rightarrow> 'v option" where
  "dict_get d k = (case d k of None \<Rightarrow> None | Some v \<Rightarrow> v)"

text \<open>\<^verbatim>\<open>sep.join(xs)\<close>.\<close>

fun str_join :: "string \<Rightarrow> string list \<Rightarrow> string" where
  "str_join sep [] = []"
| "str_join sep [x] = x"
| "str_join sep (x # y # ys) = x @ sep @ str_join sep (y # ys)"

definition ug_per_m3 :: string where
  "ug_per_m3 = '' '' @ [CHR 0xC2, CHR 0xB5] @ ''g/m'' @ [CHR 0xC2, CHR 0xB3]"

text \<open>
  The body of \<^verbatim>\<open>pollutant_summary\<close> up to its \<^verbatim>\<open>return\<close>: the list \<^verbatim>\<open>lines\<close>. The
  conversion \<^verbatim>\<open>{x:.1f}\<close> of a float to text belongs to Python, not to this repository,
  and is the parameter \<open>fmt1f\<close>.
\<close>

definition pollutant_lines :: "(pyfloat \<Rightarrow> string) \<Rightarrow> (string \<rightharpoonup> pyfloat option) \<Rightarrow> string list" where
  "pollutant_lines fmt1f pollutants =
     (let lines = [];
          pm25 = dict_get pollutants ''pm2_5'';
          pm10 = dict_get pollutants ''pm10'';
          o3 = dict_get pollutants ''ozone'';
          no2 = dict_get pollutants ''nitrogen_dioxide'';
          co = dict_get pollutants ''carbon_monoxide'';
          lines = (case pm25 of None \<Rightarrow> lines
                   | Some x \<Rightarrow> lines @ [''PM2.5: '' @ fmt1f x @ ug_per_m3]);
          lines = (case pm10 of None \<Rightarrow> lines
                   | Some x \<Rightarrow> lines @ [''PM10: '' @ fmt1f x @ ug_per_m3]);
          lines = (case o3 of None \<Rightarrow> lines
                   | Some x \<Rightarrow> lines @ [''O'' @ [CHR 0xE2, CHR 0x82, CHR 0x83] @ '' (ozone): ''
                                          @ fmt1f x @ ug_per_m3]);
          lines = (case no2 of None \<Rightarrow> lines
                   | Some x \<Rightarrow> lines @ [''NO'' @ [CHR 0xE2, CHR 0x82, CHR 0x82] @ '': ''
                                          @ fmt1f x @ ug_per_m3]);
          lines = (case co of None \<Rightarrow> lines
                   | Some x \<Rightarrow> lines @ [''CO: '' @ fmt1f x @ ug_per_m3])
      in lines)"

text \<open>\<^verbatim>\<open>return "\n".join(lines) if lines else "Pollutant data not available."\<close>\<close>

definition pollutant_summary :: "(pyfloat \<Rightarrow> string) \<Rightarrow> (string \<rightharpoonup> pyfloat option) \<Rightarrow> string" where
  "pollutant_summary fmt1f pollutants =
     (let lines = pollutant_lines fmt1f pollutants
      in if lines \<noteq> [] then str_join [CHR 0x0A] lines else ''Pollutant data not available.'')"

text \<open>
  The specification's wording: the five pollutants in their fixed order, each with its
  label, one line for each one that is present.
\<close>

definition pollutant_order :: "(string \<times> string) list" where
  "pollutant_order =
     [(''pm2_5'', ''PM2.5: ''),
      (''pm10'', ''PM10: ''),
      (''ozone'', ''O'' @ [CHR 0xE2, CHR 0x82, CHR 0x83] @ '' (ozone): ''),
      (''nitrogen_dioxide'', ''NO'' @ [CHR 0xE2, CHR 0x82, CHR 0x82] @ '': ''),
      (''carbon_monoxide'', ''CO: '')]"

definition present_lines :: "(pyfloat \<Rightarrow> string) \<Rightarrow> (string \<rightharpoonup> pyfloat option) \<Rightarrow> string list" where
  "present_lines fmt1f pollutants =
     concat (map (\<lambda>(key, label).
                    case dict_get pollutants key of
                      None \<Rightarrow> []
                    | Some x \<Rightarrow> [label @ fmt1f x @ ug_per_m3])
                 pollutant_order)"

section \<open>Exceptions, API responses and effects\<close>

text \<open>
  An exception is a value carrying the text that \<^verbatim>\<open>str(e)\<close> gives; a call that may raise
  returns \<open>error + 'a\<close>, with \<open>Inl\<close> for the exception.
\<close>

datatype error = Exception string

fun message :: "error \<Rightarrow> string" where
  "message (Exception m) = m"

text \<open>
  A key of a JSON object is missing, bound to \<^verbatim>\<open>null\<close>, or bound to a value. The two
  ways the program reads a key differ on \<^verbatim>\<open>null\<close>: \<^verbatim>\<open>d.get(k)\<close> gives \<^verbatim>\<open>None\<close> for a
  missing key and for \<^verbatim>\<open>null\<close>, while \<^verbatim>\<open>d.get(k, default)\<close> gives the default only
  for a missing key and \<^verbatim>\<open>None\<close> for \<^verbatim>\<open>null\<close>.
\<close>

datatype 'a field = Missing | Null | Value 'a

fun get_or_none :: "'a field \<Rightarrow> 'a option" where
  "get_or_none Missing = None"
| "get_or_none Null = None"
| "get_or_none (Value v) = Some v"

fun get_or_default :: "'a field \<Rightarrow> 'a \<Rightarrow> 'a option" where
  "get_or_default Missing d = Some d"
| "get_or_default Null d = None"
| "get_or_default (Value v) d = Some v"

text \<open>
  The two exceptions Python raises on \<^verbatim>\<open>None\<close> in \<^verbatim>\<open>services.py\<close>: \<^verbatim>\<open>None.get(...)\<close>
  is an AttributeError and \<^verbatim>\<open>len(None)\<close> a TypeError.
\<close>

definition attribute_error_get :: error where
  "attribute_error_get =
     Exception ([CHR 0x27] @ ''NoneType'' @ [CHR 0x27] @ '' object has no attribute ''
                @ [CHR 0x27] @ ''get'' @ [CHR 0x27])"

definition type_error_len :: error where
  "type_error_len =
     Exception (''object of type '' @ [CHR 0x27] @ ''NoneType'' @ [CHR 0x27] @ '' has no len()'')"

text \<open>
  The JSON objects of the three Open-Meteo responses, with the keys the program reads.
  In the geocoding entry and the current-weather block every key is read with
  \<^verbatim>\<open>d.get(k)\<close>, so \<open>None\<close> is a missing key or \<^verbatim>\<open>null\<close>. The blocks and arrays of the
  forecast are read with a default; there \<open>None\<close> is the missing key, and a block or
  array is otherwise the object or array the API documents. The air-quality response, which
  \<^verbatim>\<open>latest_aqi\<close> takes apart, keeps the three cases of each key: the hourly block, its time
  array and its numeric series, which are looked up by key. Array elements may be
  \<^verbatim>\<open>null\<close>.
\<close>

record geo_loc =
  loc_name :: "string option"
  loc_country :: "string option"
  loc_latitude :: "pyfloat option"
  loc_longitude :: "pyfloat option"

record current_weather =
  cw_temperature :: "pyfloat option"
  cw_windspeed :: "pyfloat option"
  cw_weathercode :: "int option"
  cw_time :: "string option"

record daily =
  d_time :: "string list option"
  d_temperature_2m_max :: "pyfloat option list option"
  d_temperature_2m_min :: "pyfloat option list option"
  d_weathercode :: "int option list option"

record weather_data =
  wd_current_weather :: "current_weather option"
  wd_daily :: "daily option"

record hourly =
  h_time :: "string list field"
  h_series :: "string \<Rightarrow> pyfloat option list field"

record aq_data =
  aq_hourly :: "hourly field"

text \<open>The value of a cell of the logged record: text, a float or an int.\<close>

datatype cell = CStr string | CNum pyfloat | CInt int

text \<open>
  What one run of the script does to the outside, in order: the HTTP requests, the call of
  the logger, and the Streamlit outputs that carry data (headings and separators are left
  out). A number that the script formats is kept as the number with its unit; the AQI
  block carries badge, value, description, pollutant summary and the data of the chart.
\<close>

datatype effect =
    Http_geocode string
  | Http_forecast "pyfloat option" "pyfloat option"
  | Http_air_quality "pyfloat option" "pyfloat option"
  | Excel_append "(string \<times> cell option) list"
  | St_error string
  | St_warning string
  | St_success string
  | Show_location "string option" "string option" "string option"
  | Show_current "pyfloat option" string
  | Show_wind "pyfloat option" "int option"
  | Show_aqi string pyfloat string string "(string list \<times> pyfloat option list) option"
  | Show_day string "pyfloat option" "pyfloat option" string "int option"
  | Show_tip string
  | Show_raw

section \<open>helpers.py: the record logger\<close>

text \<open>
  pandas and the file system, as far as \<^verbatim>\<open>save_record_to_excel\<close> uses them. A data
  frame is its column names in order and its rows; a row gives each column's cell, an
  empty cell being \<open>None\<close> (a Python \<^verbatim>\<open>None\<close> in a record is written as an empty cell).
  A record is a Python dictionary in insertion order. Writing a frame and reading it back
  is taken to give the same columns and rows.
\<close>

record 'v dataframe =
  df_columns :: "string list"
  df_rows :: "(string \<Rightarrow> 'v option) list"

text \<open>The row a record becomes.\<close>

definition row_of_record :: "(string \<times> 'v option) list \<Rightarrow> string \<Rightarrow> 'v option" where
  "row_of_record record = dict_get (map_of record)"

text \<open>\<^verbatim>\<open>pd.DataFrame([record])\<close>\<close>

definition DataFrame_of_record :: "(string \<times> 'v option) list \<Rightarrow> 'v dataframe" where
  "DataFrame_of_record record =
     \<lparr>df_columns = map fst record, df_rows = [row_of_record record]\<rparr>"

text \<open>
  \<^verbatim>\<open>pd.concat([a, b], ignore_index=True)\<close>: the columns of \<open>a\<close>, then those of \<open>b\<close>
  that \<open>a\<close> does not have; the rows of \<open>a\<close>, then those of \<open>b\<close>.
\<close>

definition pd_concat :: "'v dataframe \<Rightarrow> 'v dataframe \<Rightarrow> 'v dataframe" where
  "pd_concat a b =
     \<lparr>df_columns = df_columns a @ filter (\<lambda>c. c \<notin> set (df_columns a)) (df_columns b),
      df_rows = df_rows a @ df_rows b\<rparr>"

text \<open>
  A file is a workbook holding a frame, or something \<^verbatim>\<open>pd.read_excel\<close> raises on. The
  file system also says for which paths a write raises, and with what.
\<close>

datatype 'v excel_file = Workbook "'v dataframe" | Unreadable error

record 'v filesystem =
  fs_files :: "string \<rightharpoonup> 'v excel_file"
  fs_write_error :: "string \<rightharpoonup> error"

definition os_path_exists :: "'v filesystem \<Rightarrow> string \<Rightarrow> bool" where
  "os_path_exists fs path \<longleftrightarrow> fs_files fs path \<noteq> None"

definition pd_read_excel :: "'v filesystem \<Rightarrow> string \<Rightarrow> error + 'v dataframe" where
  "pd_read_excel fs path =
     (case fs_files fs path of
        None \<Rightarrow> Inl (Exception ''No such file or directory'')
      | Some (Unreadable e) \<Rightarrow> Inl e
      | Some (Workbook df) \<Rightarrow> Inr df)"

definition to_excel :: "'v dataframe \<Rightarrow> string \<Rightarrow> 'v filesystem \<Rightarrow> error + 'v filesystem" where
  "to_excel df path fs =
     (case fs_write_error fs path of
        Some e \<Rightarrow> Inl e
      | None \<Rightarrow> Inr (fs\<lparr>fs_files := (fs_files fs)(path \<mapsto> Workbook df)\<rparr>))"

text \<open>
  \<^verbatim>\<open>save_record_to_excel(record, file_path)\<close>: the \<^verbatim>\<open>try\<close> block gives the new file
  system or the exception; \<^verbatim>\<open>except Exception as e\<close> turns the exception into one
  \<^verbatim>\<open>st.warning\<close> and leaves the file system as it was. The result is the list of
  outputs and the file system.
\<close>

definition save_record_to_excel ::
  "(string \<times> 'v option) list \<Rightarrow> string \<Rightarrow> 'v filesystem \<Rightarrow> effect list \<times> 'v filesystem" where
  "save_record_to_excel record file_path fs =
     (case
        (if os_path_exists fs file_path then
           (case pd_read_excel fs file_path of
              Inl e \<Rightarrow> Inl e
            | Inr df_existing \<Rightarrow>
                (let df_new = pd_concat df_existing (DataFrame_of_record record)
                 in to_excel df_new file_path fs))
         else to_excel (DataFrame_of_record record) file_path fs)
      of
        Inr fs' \<Rightarrow> ([], fs')
      | Inl e \<Rightarrow> ([St_warning (''Could not save record to Excel: '' @ message e)], fs))"

text \<open>Calling the logger once for each record of a list, in order, on the same path.\<close>

fun append_all ::
  "(string \<times> 'v option) list list \<Rightarrow> string \<Rightarrow> 'v filesystem \<Rightarrow> 'v filesystem" where
  "append_all [] file_path fs = fs"
| "append_all (record # records) file_path fs =
     append_all records file_path (snd (save_record_to_excel record file_path fs))"

text \<open>
  \<^verbatim>\<open>aqi_timeseries(aq_data)\<close>: \<^verbatim>\<open>hourly.get\<close> raises when \<^verbatim>\<open>hourly\<close> is \<^verbatim>\<open>None\<close>;
  the result is \<^verbatim>\<open>None\<close> when either array is empty, \<^verbatim>\<open>null\<close> or missing (the test is
  \<^verbatim>\<open>not times or not aqi_values\<close>); otherwise it is the two-column frame, whose
  construction raises when the arrays differ in length.
\<close>

definition aqi_timeseries :: "aq_data \<Rightarrow> error + (string list \<times> pyfloat option list) option" where
  "aqi_timeseries aq_data =
     (case get_or_default (aq_hourly aq_data) \<lparr>h_time = Missing, h_series = (\<lambda>k. Missing)\<rparr> of
        None \<Rightarrow> Inl attribute_error_get
      | Some hourly \<Rightarrow>
          (case get_or_default (h_time hourly) [] of
             None \<Rightarrow> Inr None
           | Some times' \<Rightarrow>
               (case get_or_default (h_series hourly ''us_aqi'') [] of
                  None \<Rightarrow> Inr None
                | Some aqi_values \<Rightarrow>
                    if times' = [] \<or> aqi_values = [] then Inr None
                    else if length times' \<noteq> length aqi_values
                      then Inl (Exception ''All arrays must be of the same length'')
                    else Inr (Some (times', aqi_values)))))"

section \<open>services.py\<close>

text \<open>
  The outside of one run: the user's settings, the clock, Python's own formatting and
  date parsing, and what each HTTP request gives (\<^verbatim>\<open>requests.get\<close>,
  \<^verbatim>\<open>raise_for_status\<close> and \<^verbatim>\<open>r.json()\<close> together: the decoded body, or the exception
  one of them raises). The geocoding body is its \<^verbatim>\<open>results\<close> field.
\<close>

datatype unit_choice = Celsius | Fahrenheit

record env =
  env_units :: unit_choice
  env_show_raw :: bool
  env_now :: string
  env_fmt1f :: "pyfloat \<Rightarrow> string"
  env_date_label :: "string \<Rightarrow> string"
  env_http_geocode :: "string \<Rightarrow> error + geo_loc list option"
  env_http_forecast :: "pyfloat option \<Rightarrow> pyfloat option \<Rightarrow> error + weather_data"
  env_http_air_quality :: "pyfloat option \<Rightarrow> pyfloat option \<Rightarrow> error + aq_data"

text \<open>\<^verbatim>\<open>geocode_city(city)\<close>: \<^verbatim>\<open>None\<close> when \<^verbatim>\<open>results\<close> is missing or empty, else its first entry.\<close>

definition geocode_city :: "env \<Rightarrow> string \<Rightarrow> error + geo_loc option" where
  "geocode_city env city =
     (case env_http_geocode env city of
        Inl e \<Rightarrow> Inl e
      | Inr results \<Rightarrow>
          (case results of
             None \<Rightarrow> Inr None
           | Some [] \<Rightarrow> Inr None
           | Some (loc # rest) \<Rightarrow> Inr (Some loc)))"

definition get_weather_forecast :: "env \<Rightarrow> pyfloat option \<Rightarrow> pyfloat option \<Rightarrow> error + weather_data" where
  "get_weather_forecast env lat lon = env_http_forecast env lat lon"

definition get_air_quality :: "env \<Rightarrow> pyfloat option \<Rightarrow> pyfloat option \<Rightarrow> error + aq_data" where
  "get_air_quality env lat lon = env_http_air_quality env lat lon"

text \<open>
  \<^verbatim>\<open>_safe_get(hourly, key, idx)\<close>: \<^verbatim>\<open>hourly.get(key)\<close>, then \<^verbatim>\<open>not arr\<close>, which holds
  for \<^verbatim>\<open>None\<close> and for the empty list.
\<close>

definition safe_get :: "hourly \<Rightarrow> string \<Rightarrow> nat \<Rightarrow> pyfloat option" where
  "safe_get hourly key idx =
     (case get_or_none (h_series hourly key) of
        None \<Rightarrow> None
      | Some arr \<Rightarrow> if arr = [] \<or> idx \<ge> length arr then None else arr ! idx)"

text \<open>
  \<^verbatim>\<open>latest_aqi(aq_data)\<close>, line by line. \<^verbatim>\<open>hourly.get("time", [])\<close> raises when
  \<^verbatim>\<open>hourly\<close> is \<^verbatim>\<open>None\<close>. \<^verbatim>\<open>not times\<close> holds for \<^verbatim>\<open>None\<close> and for the empty list.
  \<^verbatim>\<open>len(times) - 1\<close> is computed only for a non-empty list, so the subtraction on
  naturals is the program's. \<^verbatim>\<open>len(aqi_values)\<close> raises when \<^verbatim>\<open>aqi_values\<close> is
  \<^verbatim>\<open>None\<close>: this line has no \<^verbatim>\<open>not arr\<close> test.
\<close>

definition latest_aqi :: "aq_data \<Rightarrow> error + pyfloat option \<times> (string \<rightharpoonup> pyfloat option)" where
  "latest_aqi aq_data =
     (case get_or_default (aq_hourly aq_data) \<lparr>h_time = Missing, h_series = (\<lambda>k. Missing)\<rparr> of
        None \<Rightarrow> Inl attribute_error_get
      | Some hourly \<Rightarrow>
          (case get_or_default (h_time hourly) [] of
             None \<Rightarrow> Inr (None, Map.empty)
           | Some times' \<Rightarrow>
               if times' = [] then Inr (None, Map.empty)
               else
                 (let idx = length times' - 1
                  in case get_or_default (h_series hourly ''us_aqi'') [] of
                       None \<Rightarrow> Inl type_error_len
                     | Some aqi_values \<Rightarrow>
                         (let aqi_val = (if idx < length aqi_values then aqi_values ! idx
                                         else None);
                              pollutants =
                                [''pm2_5'' \<mapsto> safe_get hourly ''pm2_5'' idx,
                                 ''pm10'' \<mapsto> safe_get hourly ''pm10'' idx,
                                 ''ozone'' \<mapsto> safe_get hourly ''ozone'' idx,
                                 ''nitrogen_dioxide'' \<mapsto> safe_get hourly ''nitrogen_dioxide'' idx,
                                 ''carbon_monoxide'' \<mapsto> safe_get hourly ''carbon_monoxide'' idx]
                          in Inr (aqi_val, pollutants)))))"

text \<open>
  For stating what \<^verbatim>\<open>latest_aqi\<close> returns: the five pollutant keys, and the entry of a
  series at an index, absent when the series is missing, \<^verbatim>\<open>null\<close> or too short.
\<close>

definition pollutant_keys :: "string list" where
  "pollutant_keys = [''pm2_5'', ''pm10'', ''ozone'', ''nitrogen_dioxide'', ''carbon_monoxide'']"

definition series_at :: "hourly \<Rightarrow> string \<Rightarrow> nat \<Rightarrow> pyfloat option" where
  "series_at h key i =
     (case h_series h key of
        Value xs \<Rightarrow> if i < length xs then xs ! i else None
      | _ \<Rightarrow> None)"

section \<open>app.py: one query\<close>

text \<open>
  \<^verbatim>\<open>c * 9/5 + 32\<close>, evaluated from the left. On a finite value the three operations are
  taken exactly, as real arithmetic (the rounding of each operation to a double is not
  part of this model); infinities and NaN pass through.
\<close>

definition c_to_f :: "pyfloat \<Rightarrow> pyfloat" where
  "c_to_f c =
     (case c of
        Finite x \<Rightarrow> Finite (x * 9 / 5 + 32)
      | PosInf \<Rightarrow> PosInf
      | NegInf \<Rightarrow> NegInf
      | NaN \<Rightarrow> NaN)"

definition deg_F :: string where
  "deg_F = [CHR 0xC2, CHR 0xB0] @ ''F''"

definition deg_C :: string where
  "deg_C = [CHR 0xC2, CHR 0xB0] @ ''C''"

text \<open>Lines 78 to 83: the displayed current temperature and the unit label.\<close>

definition convert_current :: "unit_choice \<Rightarrow> pyfloat option \<Rightarrow> pyfloat option \<times> string" where
  "convert_current units temp_c =
     (if units = Fahrenheit \<and> temp_c \<noteq> None then (map_option c_to_f temp_c, deg_F)
      else (temp_c, deg_C))"

text \<open>
  Lines 86 to 92: the three calls inside \<^verbatim>\<open>try\<close>; an exception of any of them gives
  \<^verbatim>\<open>None, {}, None\<close>.
\<close>

definition air_quality_block ::
  "env \<Rightarrow> pyfloat option \<Rightarrow> pyfloat option
     \<Rightarrow> pyfloat option \<times> (string \<rightharpoonup> pyfloat option) \<times> (string list \<times> pyfloat option list) option" where
  "air_quality_block env lat lon =
     (case get_air_quality env lat lon of
        Inl e \<Rightarrow> (None, Map.empty, None)
      | Inr aq_data \<Rightarrow>
          (case latest_aqi aq_data of
             Inl e \<Rightarrow> (None, Map.empty, None)
           | Inr (aqi_val, pollutants) \<Rightarrow>
               (case aqi_timeseries aq_data of
                  Inl e \<Rightarrow> (None, Map.empty, None)
                | Inr aqi_df \<Rightarrow> (aqi_val, pollutants, aqi_df))))"

text \<open>Lines 95 to 103: the logged record, its keys in the order written.\<close>

definition log_record ::
  "env \<Rightarrow> string option \<Rightarrow> string option \<Rightarrow> pyfloat option \<Rightarrow> pyfloat option \<Rightarrow> int option
     \<Rightarrow> pyfloat option \<Rightarrow> (string \<times> cell option) list" where
  "log_record env city_name country temp_c wind_speed weather_code aqi_val =
     [(''Date & Time'', Some (CStr (env_now env))),
      (''City'', map_option CStr city_name),
      (''Country'', map_option CStr country),
      (''Temperature ('' @ [CHR 0xC2, CHR 0xB0] @ ''C)'', map_option CNum temp_c),
      (''Wind Speed (km/h)'', map_option CNum wind_speed),
      (''Weather Code'', map_option CInt weather_code),
      (''US AQI'', map_option CNum aqi_val)]"

text \<open>Lines 135 to 151: the air-quality block.\<close>

definition aqi_block ::
  "env \<Rightarrow> pyfloat option \<Rightarrow> (string \<rightharpoonup> pyfloat option)
     \<Rightarrow> (string list \<times> pyfloat option list) option \<Rightarrow> effect list" where
  "aqi_block env aqi_val pollutants aqi_df =
     (case aqi_val of
        None \<Rightarrow> [St_warning ''Air quality data not available for this location.'']
      | Some a \<Rightarrow>
          if isnan a then [St_warning ''Air quality data not available for this location.'']
          else [Show_aqi (aqi_emoji aqi_val) a (explain_us_aqi aqi_val)
                  (pollutant_summary (env_fmt1f env) pollutants) aqi_df])"

text \<open>\<^verbatim>\<open>xs[i] if i < len(xs) else None\<close>\<close>

definition list_get :: "'a option list \<Rightarrow> nat \<Rightarrow> 'a option" where
  "list_get xs i = (if i < length xs then xs ! i else None)"

text \<open>
  Lines 156 to 192: the forecast block, one entry for each of the first
  \<^verbatim>\<open>min(5, len(dates))\<close> days. The label is the parsed date, or the raw string when
  parsing raises; both are \<open>env_date_label\<close>. An entry carries minimum and maximum
  (written only when not \<^verbatim>\<open>None\<close>), the unit label and the code.
\<close>

definition forecast_block :: "env \<Rightarrow> string \<Rightarrow> daily \<Rightarrow> effect list" where
  "forecast_block env temp_unit daily =
     (let dates = (case d_time daily of None \<Rightarrow> [] | Some xs \<Rightarrow> xs);
          tmax = (case d_temperature_2m_max daily of None \<Rightarrow> [] | Some xs \<Rightarrow> xs);
          tmin = (case d_temperature_2m_min daily of None \<Rightarrow> [] | Some xs \<Rightarrow> xs);
          wcodes = (case d_weathercode daily of None \<Rightarrow> [] | Some xs \<Rightarrow> xs);
          num_days = min 5 (length dates)
      in if num_days = 0 then [St_warning ''Forecast data not available.'']
         else
           map (\<lambda>i.
                  let date_str = dates ! i;
                      label = env_date_label env date_str;
                      d_tmax = list_get tmax i;
                      d_tmin = list_get tmin i;
                      d_code = list_get wcodes i;
                      d_tmax = (if env_units env = Fahrenheit then map_option c_to_f d_tmax
                                else d_tmax);
                      d_tmin = (if env_units env = Fahrenheit then map_option c_to_f d_tmin
                                else d_tmin)
                  in Show_day label d_tmin d_tmax temp_unit d_code)
               [0..<num_days])"

text \<open>Lines 198 to 201: the call of \<^verbatim>\<open>eco_tips\<close> with its three defaults.\<close>

definition query_tips ::
  "pyfloat option \<Rightarrow> int option \<Rightarrow> pyfloat option \<Rightarrow> pyfloat option \<Rightarrow> string list" where
  "query_tips temp_c weather_code aqi_val wind_speed =
     eco_tips (case temp_c of None \<Rightarrow> Finite 25 | Some t \<Rightarrow> t)
              (case weather_code of None \<Rightarrow> 1 | Some c \<Rightarrow> c)
              aqi_val
              (Some (case wind_speed of None \<Rightarrow> Finite 0 | Some w \<Rightarrow> w))"

datatype status = Stopped | Finished

text \<open>
  The current-weather and daily blocks of a forecast response, \<^verbatim>\<open>{}\<close> when missing
  (lines 69 and 70).
\<close>

definition current_of :: "weather_data \<Rightarrow> current_weather" where
  "current_of weather_data =
     (case wd_current_weather weather_data of
        None \<Rightarrow> \<lparr>cw_temperature = None, cw_windspeed = None, cw_weathercode = None,
                  cw_time = None\<rparr>
      | Some c \<Rightarrow> c)"

definition daily_of :: "weather_data \<Rightarrow> daily" where
  "daily_of weather_data =
     (case wd_daily weather_data of
        None \<Rightarrow> \<lparr>d_time = None, d_temperature_2m_max = None, d_temperature_2m_min = None,
                  d_weathercode = None\<rparr>
      | Some d \<Rightarrow> d)"

text \<open>
  Lines 69 to 214: what the script does once the forecast has been fetched. The result
  is the effects in order, from the air-quality request on, and the file system.
\<close>

definition after_forecast ::
  "env \<Rightarrow> geo_loc \<Rightarrow> weather_data \<Rightarrow> cell filesystem \<Rightarrow> effect list \<times> cell filesystem" where
  "after_forecast env location weather_data fs =
     (let lat = loc_latitude location;
          lon = loc_longitude location;
          city_name = loc_name location;
          country = loc_country location;
          current = current_of weather_data;
          daily = daily_of weather_data;
          temp_c = cw_temperature current;
          wind_speed = cw_windspeed current;
          weather_code = cw_weathercode current;
          time_str = cw_time current;
          (temp, temp_unit) = convert_current (env_units env) temp_c;
          (aqi_val, pollutants, aqi_df) = air_quality_block env lat lon;
          record = log_record env city_name country temp_c wind_speed weather_code aqi_val;
          (warnings, fs') = save_record_to_excel record ''weather_records.xlsx'' fs;
          tips = query_tips temp_c weather_code aqi_val wind_speed
      in ([Http_air_quality lat lon, Excel_append record]
          @ warnings
          @ [St_success ([CHR 0xF0, CHR 0x9F, CHR 0x93, CHR 0x8A]
                         @ '' Weather record saved in '' @ [CHR 0x27]
                         @ ''weather_records.xlsx'' @ [CHR 0x27]),
             Show_location city_name country time_str,
             Show_current temp temp_unit,
             Show_wind wind_speed weather_code]
          @ aqi_block env aqi_val pollutants aqi_df
          @ forecast_block env temp_unit daily
          @ map Show_tip tips
          @ (if env_show_raw env then [Show_raw] else []),
          fs'))"

text \<open>
  Lines 46 to 214: the script's body for a city name that is not blank, \<open>city\<close> being
  \<^verbatim>\<open>city.strip()\<close>. \<open>Stopped\<close> is \<^verbatim>\<open>st.stop()\<close>, \<open>Finished\<close> is the end of the script.
  The result is the status, the effects in order and the file system.
\<close>

definition run_query :: "env \<Rightarrow> string \<Rightarrow> cell filesystem \<Rightarrow> status \<times> effect list \<times> cell filesystem" where
  "run_query env city fs =
     (case geocode_city env city of
        Inl e \<Rightarrow>
          (Stopped, [Http_geocode city, St_error (''Error geocoding city: '' @ message e)], fs)
      | Inr None \<Rightarrow>
          (Stopped,
           [Http_geocode city,
            St_error (''Could not find this city. Try a different spelling or include country (e.g., ''
                      @ [CHR 0x27] @ ''Delhi, India'' @ [CHR 0x27] @ '').'')],
           fs)
      | Inr (Some location) \<Rightarrow>
          (let lat = loc_latitude location;
               lon = loc_longitude location
           in case get_weather_forecast env lat lon of
                Inl e \<Rightarrow>
                  (Stopped,
                   [Http_geocode city, Http_forecast lat lon,
                    St_error (''Error fetching weather data: '' @ message e)],
                   fs)
              | Inr weather_data \<Rightarrow>
                  (case after_forecast env location weather_data fs of
                     (effects, fs') \<Rightarrow>
                       (Finished, [Http_geocode city, Http_forecast lat lon] @ effects, fs'))))"

text \<open>\<^verbatim>\<open>d.get(key, [])\<close> for a field holding an array.\<close>

definition or_empty :: "'a list option \<Rightarrow> 'a list" where
  "or_empty xs = (case xs of None \<Rightarrow> [] | Some ys \<Rightarrow> ys)"

section \<open>Example inputs\<close>

text \<open>
  One concrete run, used to evaluate the model: the geocoding answer for Delhi, a
  forecast with current temperature 32.5 and six days of which the fifth has no minimum,
  an air-quality answer of three hours, and an empty file system.
\<close>

definition delhi :: geo_loc where
  "delhi = \<lparr>loc_name = Some ''Delhi'', loc_country = Some ''India'',
             loc_latitude = Some (Finite 28.6667), loc_longitude = Some (Finite 77.2167)\<rparr>"

definition example_weather :: weather_data where
  "example_weather =
     \<lparr>wd_current_weather =
        Some \<lparr>cw_temperature = Some (Finite 32.5), cw_windspeed = Some (Finite 7.2),
              cw_weathercode = Some 2, cw_time = Some ''2024-05-01T12:00''\<rparr>,
      wd_daily =
        Some \<lparr>d_time = Some [''2024-05-01'', ''2024-05-02'', ''2024-05-03'', ''2024-05-04'',
                              ''2024-05-05'', ''2024-05-06''],
              d_temperature_2m_max =
                Some [Some (Finite 40), Some (Finite 35), None, Some (Finite 30),
                      Some (Finite 25), Some (Finite 20)],
              d_temperature_2m_min =
                Some [Some (Finite 25), Some (Finite 20), Some (Finite 15), Some (Finite 10)],
              d_weathercode = Some [Some 1, Some 2, Some 3, Some 61, Some 63, Some 80]\<rparr>\<rparr>"

definition example_air :: aq_data where
  "example_air =
     \<lparr>aq_hourly =
        Value \<lparr>h_time = Value [''2024-05-01T10:00'', ''2024-05-01T11:00'', ''2024-05-01T12:00''],
               h_series =
                 (\<lambda>k. Missing)
                   (''us_aqi'' := Value [Some (Finite 160), Some (Finite 170), Some (Finite 175)],
                    ''pm2_5'' := Value [Some (Finite 80), Some (Finite 85), Some (Finite 90)],
                    ''pm10'' := Value [Some (Finite 120), Some (Finite 125)])\<rparr>\<rparr>"

definition example_env :: env where
  "example_env =
     \<lparr>env_units = Fahrenheit,
      env_show_raw = False,
      env_now = ''2024-05-01 12:00:00'',
      env_fmt1f = (\<lambda>x. ''#.#''),
      env_date_label = (\<lambda>d. d),
      env_http_geocode = (\<lambda>city. Inr (Some [delhi])),
      env_http_forecast = (\<lambda>lat lon. Inr example_weather),
      env_http_air_quality = (\<lambda>lat lon. Inr example_air)\<rparr>"

definition empty_fs :: "cell filesystem" where
  "empty_fs = \<lparr>fs_files = Map.empty, fs_write_error = Map.empty\<rparr>"

section \<open>Properties of the classifier\<close>

lemma in_tier_iff_tier_of: "in_tier t v \<longleftrightarrow> t = tier_of v"
proof (cases v)
  case None
  then show ?thesis by (cases t) (simp_all add: tier_of_def)
next
  case (Some x)
  show ?thesis
  proof (cases x)
    case (Finite r)
    with Some show ?thesis by (cases t) (auto simp: tier_of_def)
  next
    case PosInf
    with Some show ?thesis by (cases t) (simp_all add: tier_of_def)
  next
    case NegInf
    with Some show ?thesis by (cases t) (simp_all add: tier_of_def)
  next
    case NaN
    with Some show ?thesis by (cases t) (simp_all add: tier_of_def)
  qed
qed

lemma explain_us_aqi_tier_of: "explain_us_aqi v = tier_text (tier_of v)"
proof (cases v)
  case None
  then show ?thesis by (simp add: explain_us_aqi_def tier_of_def)
next
  case (Some x)
  then show ?thesis
    by (cases x) (simp_all add: explain_us_aqi_def tier_of_def)
qed

lemma aqi_emoji_tier_of: "aqi_emoji v = tier_badge (tier_of v)"
proof (cases v)
  case None
  then show ?thesis by (simp add: aqi_emoji_def tier_of_def)
next
  case (Some x)
  then show ?thesis
    by (cases x) (simp_all add: aqi_emoji_def tier_of_def)
qed

lemma tier_text_inj: "tier_text s = tier_text t \<Longrightarrow> s = t"
  by (cases s; cases t) simp_all

lemma tier_badge_inj: "tier_badge s = tier_badge t \<Longrightarrow> s = t"
  by (cases s; cases t) simp_all

text \<open>
  C1. Every AQI input (absent, NaN, infinite or finite) lies in exactly one of the seven
  tiers of the specification's table, with inclusive upper bounds 50, 100, 150, 200 and
  300 and no bound above 300; the description returned by \<^verbatim>\<open>explain_us_aqi\<close> and the
  badge returned by \<^verbatim>\<open>aqi_emoji\<close> are both the ones of that tier, and distinct tiers
  have distinct descriptions and distinct badges.
\<close>

theorem C1_classifier_total_same_tier:
  "(\<exists>!t. in_tier t v)
   \<and> (\<forall>t. in_tier t v \<longrightarrow> explain_us_aqi v = tier_text t \<and> aqi_emoji v = tier_badge t)
   \<and> (\<forall>s t. tier_text s = tier_text t \<longrightarrow> s = t)
   \<and> (\<forall>s t. tier_badge s = tier_badge t \<longrightarrow> s = t)"
proof (intro conjI)
  show "\<exists>!t. in_tier t v"
    by (simp add: in_tier_iff_tier_of)
  show "\<forall>t. in_tier t v \<longrightarrow> explain_us_aqi v = tier_text t \<and> aqi_emoji v = tier_badge t"
    by (simp add: in_tier_iff_tier_of explain_us_aqi_tier_of aqi_emoji_tier_of)
  show "\<forall>s t. tier_text s = tier_text t \<longrightarrow> s = t"
    using tier_text_inj by blast
  show "\<forall>s t. tier_badge s = tier_badge t \<longrightarrow> s = t"
    using tier_badge_inj by blast
qed

theorem C1_classifier_witness:
  "in_tier Unhealthy (Some (Finite 175))
   \<and> explain_us_aqi (Some (Finite 175))
       = ''Unhealthy '' @ [CHR 0xE2, CHR 0x80, CHR 0x93]
           @ '' Everyone may begin to feel adverse health effects.''
   \<and> aqi_emoji (Some (Finite 175)) = [CHR 0xF0, CHR 0x9F, CHR 0x94, CHR 0xB4]"
proof -
  have h: "in_tier Unhealthy (Some (Finite 175))" by simp
  from C1_classifier_total_same_tier [of "Some (Finite 175)"] h
  have "explain_us_aqi (Some (Finite 175)) = tier_text Unhealthy
        \<and> aqi_emoji (Some (Finite 175)) = tier_badge Unhealthy"
    by blast
  with h show ?thesis by simp
qed

section \<open>Properties of the tip engine\<close>

lemma eco_tips_parts:
  "eco_tips t c a w =
     (let r = temperature_tips t @ weather_tips c @ aqi_tips a @ wind_tips w
      in if r = [] then [tip_fallback] else r)"
proof -
  have s1: "\<And>tips. (if float_le (Finite 18) t \<and> float_le t (Finite 28)
               then tips @ [tip_comfortable]
             else if float_lt (Finite 30) t then tips @ [tip_hot]
             else if float_lt t (Finite 15) then tips @ [tip_cool]
             else tips) = tips @ temperature_tips t"
    by (simp add: temperature_tips_def)
  have s2: "\<And>tips. (if c = 0 \<or> c = 1 then tips @ [tip_clear_sky] @ [tip_daylight]
             else if c = 2 \<or> c = 3 then tips @ [tip_cloudy]
             else if (51 \<le> c \<and> c \<le> 67) \<or> (80 \<le> c \<and> c \<le> 82) then tips @ [tip_rainy]
             else if (71 \<le> c \<and> c \<le> 77) \<or> (85 \<le> c \<and> c \<le> 86) then tips @ [tip_wintry]
             else tips) = tips @ weather_tips c"
    by (simp add: weather_tips_def)
  have s3: "\<And>tips. (case a of
               None \<Rightarrow> tips
             | Some a \<Rightarrow>
                 if isnan a then tips
                 else if float_lt (Finite 150) a
                   then tips @ [tip_avoid_vehicles] @ [tip_wear_mask]
                 else if float_le a (Finite 50) then tips @ [tip_walk_cycle]
                 else tips) = tips @ aqi_tips a"
    by (simp add: aqi_tips_def split: option.split)
  have s4: "\<And>tips. (case w of
               None \<Rightarrow> tips
             | Some w \<Rightarrow> if float_lt (Finite 6) w then tips @ [tip_windy] else tips)
            = tips @ wind_tips w"
    by (simp add: wind_tips_def split: option.split)
  show ?thesis
    unfolding eco_tips_def Let_def s1 s2 s3 s4 by simp
qed

lemmas tip_defs = tip_comfortable_def tip_hot_def tip_cool_def tip_clear_sky_def tip_daylight_def
  tip_cloudy_def tip_rainy_def tip_wintry_def tip_avoid_vehicles_def tip_wear_mask_def
  tip_walk_cycle_def tip_windy_def tip_fallback_def

lemma tips_distinct:
  "distinct [tip_comfortable, tip_hot, tip_cool, tip_clear_sky, tip_daylight, tip_cloudy,
     tip_rainy, tip_wintry, tip_avoid_vehicles, tip_wear_mask, tip_walk_cycle, tip_windy,
     tip_fallback]"
  by (simp add: tip_defs)

lemma temperature_tips_empty: "temperature_tips t = [] \<longleftrightarrow> \<not> temperature_rule_fires t"
  by (auto simp: temperature_tips_def temperature_rule_fires_def)

lemma weather_tips_empty: "weather_tips c = [] \<longleftrightarrow> \<not> weather_rule_fires c"
  by (auto simp: weather_tips_def weather_rule_fires_def)

lemma aqi_tips_empty: "aqi_tips a = [] \<longleftrightarrow> \<not> aqi_rule_fires a"
proof (cases a)
  case None
  then show ?thesis by (simp add: aqi_tips_def aqi_rule_fires_def)
next
  case (Some x)
  then show ?thesis by (cases x) (auto simp: aqi_tips_def aqi_rule_fires_def)
qed

lemma wind_tips_empty: "wind_tips w = [] \<longleftrightarrow> \<not> wind_rule_fires w"
  by (auto simp: wind_tips_def wind_rule_fires_def split: option.split)

lemma eco_tips_nonempty: "eco_tips t c a w \<noteq> []"
  by (simp add: eco_tips_parts Let_def)

lemma eco_tips_fallback:
  assumes "\<not> temperature_rule_fires t" "\<not> weather_rule_fires c" "\<not> aqi_rule_fires a"
    "\<not> wind_rule_fires w"
  shows "eco_tips t c a w = [tip_fallback]"
  using assms
  by (simp add: eco_tips_parts Let_def temperature_tips_empty weather_tips_empty aqi_tips_empty
      wind_tips_empty)

text \<open>
  C2. For every temperature, weather code, AQI (present or absent) and wind speed,
  \<^verbatim>\<open>eco_tips\<close> returns a non-empty list; and when none of the four categories has a
  rule that fires, it returns exactly one tip, the reduce/reuse/recycle fallback.
\<close>

theorem C2_tips_nonempty_fallback:
  "eco_tips t c a w \<noteq> []
   \<and> (\<not> temperature_rule_fires t \<and> \<not> weather_rule_fires c \<and> \<not> aqi_rule_fires a
        \<and> \<not> wind_rule_fires w
      \<longrightarrow> eco_tips t c a w = [tip_fallback])"
  using eco_tips_nonempty eco_tips_fallback by blast

theorem C2_tips_witness:
  "\<not> temperature_rule_fires (Finite 29) \<and> \<not> weather_rule_fires 45
   \<and> \<not> aqi_rule_fires (Some (Finite 100)) \<and> \<not> wind_rule_fires (Some (Finite 3))
   \<and> eco_tips (Finite 29) 45 (Some (Finite 100)) (Some (Finite 3)) = [tip_fallback]"
proof -
  have h: "\<not> temperature_rule_fires (Finite 29) \<and> \<not> weather_rule_fires 45
      \<and> \<not> aqi_rule_fires (Some (Finite 100)) \<and> \<not> wind_rule_fires (Some (Finite 3))"
    by (simp add: temperature_rule_fires_def weather_rule_fires_def aqi_rule_fires_def
        wind_rule_fires_def)
  with C2_tips_nonempty_fallback [of "Finite 29" 45 "Some (Finite 100)" "Some (Finite 3)"]
  show ?thesis by blast
qed

text \<open>
  C3. For temperature 20, weather code 61, AQI 40 and wind speed 3, \<^verbatim>\<open>eco_tips\<close> returns
  exactly three tips in this order: the comfortable-temperature tip, the rain tip and the
  walk/cycle tip; the fallback tip is not among them.
\<close>

theorem C3_example_three_tips:
  "eco_tips (Finite 20) 61 (Some (Finite 40)) (Some (Finite 3))
     = [tip_comfortable, tip_rainy, tip_walk_cycle]
   \<and> tip_fallback \<notin> set (eco_tips (Finite 20) 61 (Some (Finite 40)) (Some (Finite 3)))"
proof -
  have e: "eco_tips (Finite 20) 61 (Some (Finite 40)) (Some (Finite 3))
     = [tip_comfortable, tip_rainy, tip_walk_cycle]"
    by (simp add: eco_tips_def)
  from tips_distinct have "tip_fallback \<notin> set [tip_comfortable, tip_rainy, tip_walk_cycle]"
    by auto
  with e show ?thesis by simp
qed

lemma set_temperature_tips: "set (temperature_tips t) \<subseteq> {tip_comfortable, tip_hot, tip_cool}"
  by (auto simp: temperature_tips_def)

lemma set_weather_tips:
  "set (weather_tips c) \<subseteq> {tip_clear_sky, tip_daylight, tip_cloudy, tip_rainy, tip_wintry}"
  by (auto simp: weather_tips_def)

lemma set_wind_tips: "set (wind_tips w) \<subseteq> {tip_windy}"
  by (auto simp: wind_tips_def split: option.split)

lemma aqi_tip_only_from_aqi_rule:
  assumes "x \<in> {tip_avoid_vehicles, tip_wear_mask, tip_walk_cycle}"
  shows "x \<in> set (eco_tips t c a w) \<longleftrightarrow> x \<in> set (aqi_tips a)"
proof -
  from assms tips_distinct have 1: "x \<notin> {tip_comfortable, tip_hot, tip_cool}"
    and 2: "x \<notin> {tip_clear_sky, tip_daylight, tip_cloudy, tip_rainy, tip_wintry}"
    and 3: "x \<notin> {tip_windy}" and 4: "x \<noteq> tip_fallback"
    by auto
  from 1 set_temperature_tips have a: "x \<notin> set (temperature_tips t)" by blast
  from 2 set_weather_tips have b: "x \<notin> set (weather_tips c)" by blast
  from 3 set_wind_tips have d: "x \<notin> set (wind_tips w)" by blast
  show ?thesis
    using a b d 4 by (auto simp: eco_tips_parts Let_def)
qed

lemma aqi_tips_high:
  "float_lt (Finite 150) x \<Longrightarrow> aqi_tips (Some x) = [tip_avoid_vehicles, tip_wear_mask]"
  by (cases x) (simp_all add: aqi_tips_def)

lemma aqi_tips_good: "float_le x (Finite 50) \<Longrightarrow> aqi_tips (Some x) = [tip_walk_cycle]"
  by (cases x) (simp_all add: aqi_tips_def)

lemma aqi_tips_middle:
  "float_lt (Finite 50) x \<Longrightarrow> float_le x (Finite 150) \<Longrightarrow> aqi_tips (Some x) = []"
  by (cases x) (simp_all add: aqi_tips_def)

lemma aqi_tips_absent: "aqi_tips None = []" "aqi_tips (Some NaN) = []"
  by (simp_all add: aqi_tips_def)

lemma aqi_tips_distinct:
  "tip_walk_cycle \<noteq> tip_avoid_vehicles" "tip_walk_cycle \<noteq> tip_wear_mask"
  using tips_distinct by auto

text \<open>
  C4. In every call of \<^verbatim>\<open>eco_tips\<close>: an AQI that is present and above 150 puts both the
  avoid-vehicles tip and the wear-mask tip in the output and keeps the walk/cycle tip
  out; an AQI that is present and at most 50 puts the walk/cycle tip in and keeps both
  high-AQI tips out; an AQI above 50 and at most 150, an absent AQI or a NaN gives none of
  the three. The witness below is the case AQI = 175, with the other three cases.
\<close>

theorem C4_aqi_tips:
  "(\<forall>x. aqi = Some x \<and> float_lt (Finite 150) x \<longrightarrow>
       tip_avoid_vehicles \<in> set (eco_tips t c aqi w)
       \<and> tip_wear_mask \<in> set (eco_tips t c aqi w)
       \<and> tip_walk_cycle \<notin> set (eco_tips t c aqi w))
   \<and> (\<forall>x. aqi = Some x \<and> float_le x (Finite 50) \<longrightarrow>
       tip_walk_cycle \<in> set (eco_tips t c aqi w)
       \<and> tip_avoid_vehicles \<notin> set (eco_tips t c aqi w)
       \<and> tip_wear_mask \<notin> set (eco_tips t c aqi w))
   \<and> ((\<exists>x. aqi = Some x \<and> float_lt (Finite 50) x \<and> float_le x (Finite 150))
        \<or> aqi = None \<or> aqi = Some NaN \<longrightarrow>
       tip_avoid_vehicles \<notin> set (eco_tips t c aqi w)
       \<and> tip_wear_mask \<notin> set (eco_tips t c aqi w)
       \<and> tip_walk_cycle \<notin> set (eco_tips t c aqi w))"
proof (intro conjI allI impI)
  fix x assume "aqi = Some x \<and> float_lt (Finite 150) x"
  then have a: "aqi_tips aqi = [tip_avoid_vehicles, tip_wear_mask]"
    by (simp add: aqi_tips_high)
  show "tip_avoid_vehicles \<in> set (eco_tips t c aqi w)"
    by (simp add: aqi_tip_only_from_aqi_rule a)
  show "tip_wear_mask \<in> set (eco_tips t c aqi w)"
    by (simp add: aqi_tip_only_from_aqi_rule a)
  show "tip_walk_cycle \<notin> set (eco_tips t c aqi w)"
    by (simp add: aqi_tip_only_from_aqi_rule a aqi_tips_distinct)
next
  fix x assume "aqi = Some x \<and> float_le x (Finite 50)"
  then have a: "aqi_tips aqi = [tip_walk_cycle]"
    by (simp add: aqi_tips_good)
  show "tip_walk_cycle \<in> set (eco_tips t c aqi w)"
    by (simp add: aqi_tip_only_from_aqi_rule a)
  show "tip_avoid_vehicles \<notin> set (eco_tips t c aqi w)"
    using aqi_tips_distinct by (simp add: aqi_tip_only_from_aqi_rule a)
  show "tip_wear_mask \<notin> set (eco_tips t c aqi w)"
    using aqi_tips_distinct by (simp add: aqi_tip_only_from_aqi_rule a)
next
  assume "(\<exists>x. aqi = Some x \<and> float_lt (Finite 50) x \<and> float_le x (Finite 150))
        \<or> aqi = None \<or> aqi = Some NaN"
  then have a: "aqi_tips aqi = []"
    by (auto simp: aqi_tips_middle aqi_tips_absent)
  show "tip_avoid_vehicles \<notin> set (eco_tips t c aqi w)"
    by (simp add: aqi_tip_only_from_aqi_rule a)
  show "tip_wear_mask \<notin> set (eco_tips t c aqi w)"
    by (simp add: aqi_tip_only_from_aqi_rule a)
  show "tip_walk_cycle \<notin> set (eco_tips t c aqi w)"
    by (simp add: aqi_tip_only_from_aqi_rule a)
qed

theorem C4_aqi_175_witness:
  "float_lt (Finite 150) (Finite 175)
   \<and> tip_avoid_vehicles \<in> set (eco_tips (Finite 20) 61 (Some (Finite 175)) (Some (Finite 3)))
   \<and> tip_wear_mask \<in> set (eco_tips (Finite 20) 61 (Some (Finite 175)) (Some (Finite 3)))
   \<and> tip_walk_cycle \<notin> set (eco_tips (Finite 20) 61 (Some (Finite 175)) (Some (Finite 3)))
   \<and> float_le (Finite 40) (Finite 50)
   \<and> tip_walk_cycle \<in> set (eco_tips (Finite 20) 61 (Some (Finite 40)) (Some (Finite 3)))
   \<and> tip_avoid_vehicles \<notin> set (eco_tips (Finite 20) 61 (Some (Finite 40)) (Some (Finite 3)))
   \<and> float_lt (Finite 50) (Finite 100) \<and> float_le (Finite 100) (Finite 150)
   \<and> tip_walk_cycle \<notin> set (eco_tips (Finite 20) 61 (Some (Finite 100)) (Some (Finite 3)))
   \<and> tip_wear_mask \<notin> set (eco_tips (Finite 20) 61 None (Some (Finite 3)))"
proof -
  have h1: "float_lt (Finite 150) (Finite 175)" by simp
  have h2: "float_le (Finite 40) (Finite 50)" by simp
  have h3: "float_lt (Finite 50) (Finite 100) \<and> float_le (Finite 100) (Finite 150)" by simp
  from h1 C4_aqi_tips [of "Some (Finite 175)" "Finite 20" 61 "Some (Finite 3)"]
  have a: "tip_avoid_vehicles \<in> set (eco_tips (Finite 20) 61 (Some (Finite 175)) (Some (Finite 3)))
   \<and> tip_wear_mask \<in> set (eco_tips (Finite 20) 61 (Some (Finite 175)) (Some (Finite 3)))
   \<and> tip_walk_cycle \<notin> set (eco_tips (Finite 20) 61 (Some (Finite 175)) (Some (Finite 3)))"
    by blast
  from h2 C4_aqi_tips [of "Some (Finite 40)" "Finite 20" 61 "Some (Finite 3)"]
  have b: "tip_walk_cycle \<in> set (eco_tips (Finite 20) 61 (Some (Finite 40)) (Some (Finite 3)))
   \<and> tip_avoid_vehicles \<notin> set (eco_tips (Finite 20) 61 (Some (Finite 40)) (Some (Finite 3)))"
    by blast
  from h3 C4_aqi_tips [of "Some (Finite 100)" "Finite 20" 61 "Some (Finite 3)"]
  have c: "tip_walk_cycle \<notin> set (eco_tips (Finite 20) 61 (Some (Finite 100)) (Some (Finite 3)))"
    by blast
  from C4_aqi_tips [of None "Finite 20" 61 "Some (Finite 3)"]
  have d: "tip_wear_mask \<notin> set (eco_tips (Finite 20) 61 None (Some (Finite 3)))"
    by blast
  from h1 h2 h3 a b c d show ?thesis by blast
qed

section \<open>Properties of the pollutant summary\<close>

lemma pollutant_lines_present: "pollutant_lines fmt1f p = present_lines fmt1f p"
  by (simp add: pollutant_lines_def present_lines_def pollutant_order_def Let_def
      split: option.split)

lemma present_lines_empty:
  "present_lines fmt1f p = [] \<longleftrightarrow> (\<forall>k \<in> set (map fst pollutant_order). dict_get p k = None)"
  by (simp add: present_lines_def pollutant_order_def split: option.split)

lemma length_present_lines:
  "length (present_lines fmt1f p)
     = length (filter (\<lambda>k. dict_get p k \<noteq> None) (map fst pollutant_order))"
  by (simp add: present_lines_def pollutant_order_def split: option.split)

text \<open>
  C5. For every pollutant mapping, the lines of \<^verbatim>\<open>pollutant_summary\<close> are one line for
  each pollutant that is present, in the fixed order PM2.5, PM10, ozone, NO2, CO, the
  absent ones left out; the summary is these lines joined by newlines, and when all five
  are absent it is the fixed "not available" text, which is not the empty string.
\<close>

theorem C5_pollutant_summary:
  "pollutant_lines fmt1f p = present_lines fmt1f p
   \<and> length (pollutant_lines fmt1f p)
       = length (filter (\<lambda>k. dict_get p k \<noteq> None) (map fst pollutant_order))
   \<and> map fst pollutant_order
       = [''pm2_5'', ''pm10'', ''ozone'', ''nitrogen_dioxide'', ''carbon_monoxide'']
   \<and> pollutant_summary fmt1f p
       = (if \<forall>k \<in> set (map fst pollutant_order). dict_get p k = None
          then ''Pollutant data not available.''
          else str_join [CHR 0x0A] (present_lines fmt1f p))
   \<and> ''Pollutant data not available.'' \<noteq> ''''"
proof (intro conjI)
  show "pollutant_lines fmt1f p = present_lines fmt1f p"
    by (rule pollutant_lines_present)
  show "length (pollutant_lines fmt1f p)
       = length (filter (\<lambda>k. dict_get p k \<noteq> None) (map fst pollutant_order))"
    by (simp only: pollutant_lines_present length_present_lines)
  show "map fst pollutant_order
       = [''pm2_5'', ''pm10'', ''ozone'', ''nitrogen_dioxide'', ''carbon_monoxide'']"
    by (simp add: pollutant_order_def)
  show "pollutant_summary fmt1f p
       = (if \<forall>k \<in> set (map fst pollutant_order). dict_get p k = None
          then ''Pollutant data not available.''
          else str_join [CHR 0x0A] (present_lines fmt1f p))"
    unfolding pollutant_summary_def Let_def pollutant_lines_present
    using present_lines_empty [of fmt1f p] by simp
  show "''Pollutant data not available.'' \<noteq> ''''"
    by simp
qed

theorem C5_pollutant_witness:
  "map (dict_get (Map.empty :: string \<rightharpoonup> pyfloat option)) (map fst pollutant_order)
     = [None, None, None, None, None]
   \<and> pollutant_summary (\<lambda>x. ''12.0'') Map.empty = ''Pollutant data not available.''
   \<and> map (dict_get [''pm10'' \<mapsto> Some (Finite 12), ''ozone'' \<mapsto> None,
                     ''carbon_monoxide'' \<mapsto> Some (Finite 12)])
         (map fst pollutant_order)
     = [None, Some (Finite 12), None, None, Some (Finite 12)]
   \<and> pollutant_summary (\<lambda>x. ''12.0'')
        [''pm10'' \<mapsto> Some (Finite 12), ''ozone'' \<mapsto> None, ''carbon_monoxide'' \<mapsto> Some (Finite 12)]
      = ''PM10: 12.0'' @ ug_per_m3 @ [CHR 0x0A] @ ''CO: 12.0'' @ ug_per_m3"
proof -
  let ?p = "[''pm10'' \<mapsto> Some (Finite 12), ''ozone'' \<mapsto> None,
             ''carbon_monoxide'' \<mapsto> Some (Finite 12)]"
  have m1: "map (dict_get (Map.empty :: string \<rightharpoonup> pyfloat option)) (map fst pollutant_order)
     = [None, None, None, None, None]"
    by (simp add: dict_get_def pollutant_order_def)
  have m2: "map (dict_get ?p) (map fst pollutant_order)
     = [None, Some (Finite 12), None, None, Some (Finite 12)]"
    by (simp add: dict_get_def pollutant_order_def)
  have h1: "\<forall>k \<in> set (map fst pollutant_order).
      dict_get (Map.empty :: string \<rightharpoonup> pyfloat option) k = None"
    by (simp add: dict_get_def)
  have h2: "\<not> (\<forall>k \<in> set (map fst pollutant_order). dict_get ?p k = None)"
    by (simp add: dict_get_def pollutant_order_def)
  have p: "present_lines (\<lambda>x. ''12.0'') ?p
      = [''PM10: 12.0'' @ ug_per_m3, ''CO: 12.0'' @ ug_per_m3]"
    by (simp add: present_lines_def pollutant_order_def dict_get_def)
  from h1 C5_pollutant_summary [of "\<lambda>x. ''12.0''" Map.empty]
  have a: "pollutant_summary (\<lambda>x. ''12.0'') Map.empty = ''Pollutant data not available.''"
    by presburger
  from h2 C5_pollutant_summary [of "\<lambda>x. ''12.0''" ?p]
  have b: "pollutant_summary (\<lambda>x. ''12.0'') ?p
      = str_join [CHR 0x0A] (present_lines (\<lambda>x. ''12.0'') ?p)"
    by presburger
  from m1 m2 a b p show ?thesis by simp
qed

section \<open>Properties of one query\<close>

lemma after_forecast_effects:
  "fst (after_forecast env location wd fs) =
     [Http_air_quality (loc_latitude location) (loc_longitude location),
      Excel_append
        (log_record env (loc_name location) (loc_country location)
           (cw_temperature (current_of wd)) (cw_windspeed (current_of wd))
           (cw_weathercode (current_of wd))
           (fst (air_quality_block env (loc_latitude location) (loc_longitude location))))]
     @ fst (save_record_to_excel
              (log_record env (loc_name location) (loc_country location)
                 (cw_temperature (current_of wd)) (cw_windspeed (current_of wd))
                 (cw_weathercode (current_of wd))
                 (fst (air_quality_block env (loc_latitude location) (loc_longitude location))))
              ''weather_records.xlsx'' fs)
     @ [St_success ([CHR 0xF0, CHR 0x9F, CHR 0x93, CHR 0x8A]
                    @ '' Weather record saved in '' @ [CHR 0x27]
                    @ ''weather_records.xlsx'' @ [CHR 0x27]),
        Show_location (loc_name location) (loc_country location) (cw_time (current_of wd)),
        Show_current (fst (convert_current (env_units env) (cw_temperature (current_of wd))))
                     (snd (convert_current (env_units env) (cw_temperature (current_of wd)))),
        Show_wind (cw_windspeed (current_of wd)) (cw_weathercode (current_of wd))]
     @ aqi_block env
         (fst (air_quality_block env (loc_latitude location) (loc_longitude location)))
         (fst (snd (air_quality_block env (loc_latitude location) (loc_longitude location))))
         (snd (snd (air_quality_block env (loc_latitude location) (loc_longitude location))))
     @ forecast_block env
         (snd (convert_current (env_units env) (cw_temperature (current_of wd)))) (daily_of wd)
     @ map Show_tip
         (query_tips (cw_temperature (current_of wd)) (cw_weathercode (current_of wd))
            (fst (air_quality_block env (loc_latitude location) (loc_longitude location)))
            (cw_windspeed (current_of wd)))
     @ (if env_show_raw env then [Show_raw] else [])"
  by (simp add: after_forecast_def Let_def split_beta)




lemma run_query_finished:
  "geocode_city env city = Inr (Some location) \<Longrightarrow>
   get_weather_forecast env (loc_latitude location) (loc_longitude location) = Inr wd \<Longrightarrow>
   run_query env city fs
     = (Finished,
        [Http_geocode city, Http_forecast (loc_latitude location) (loc_longitude location)]
          @ fst (after_forecast env location wd fs),
        snd (after_forecast env location wd fs))"
  by (simp add: run_query_def split_beta)

lemma c_to_f_finite: "c_to_f (Finite x) = Finite (x * 9 / 5 + 32)"
  by (simp add: c_to_f_def)

lemma convert_current_fahrenheit:
  "convert_current Fahrenheit (Some c) = (Some (c_to_f c), deg_F)"
  by (simp add: convert_current_def)

lemma forecast_block_length:
  "0 < min 5 (length (or_empty (d_time daily))) \<Longrightarrow>
   length (forecast_block env u daily) = min 5 (length (or_empty (d_time daily)))"
  by (simp add: forecast_block_def or_empty_def Let_def)

lemma forecast_block_nth_fahrenheit:
  assumes "env_units env = Fahrenheit" "i < min 5 (length (or_empty (d_time daily)))"
  shows "forecast_block env u daily ! i =
     Show_day (env_date_label env (or_empty (d_time daily) ! i))
       (map_option c_to_f (list_get (or_empty (d_temperature_2m_min daily)) i))
       (map_option c_to_f (list_get (or_empty (d_temperature_2m_max daily)) i))
       u
       (list_get (or_empty (d_weathercode daily)) i)"
proof -
  from assms(2) have n: "min 5 (length (or_empty (d_time daily))) \<noteq> 0" by auto
  have "forecast_block env u daily =
     map (\<lambda>i. Show_day (env_date_label env (or_empty (d_time daily) ! i))
       (map_option c_to_f (list_get (or_empty (d_temperature_2m_min daily)) i))
       (map_option c_to_f (list_get (or_empty (d_temperature_2m_max daily)) i))
       u
       (list_get (or_empty (d_weathercode daily)) i))
      [0..<min 5 (length (or_empty (d_time daily)))]"
    using n assms(1) unfolding forecast_block_def or_empty_def Let_def by simp
  with assms(2) show ?thesis by simp
qed

lemma forecast_block_in_query:
  assumes "geocode_city env city = Inr (Some location)"
    and "get_weather_forecast env (loc_latitude location) (loc_longitude location) = Inr wd"
  shows "set (forecast_block env
               (snd (convert_current (env_units env) (cw_temperature (current_of wd))))
               (daily_of wd))
         \<subseteq> set (fst (snd (run_query env city fs)))"
    and "Show_current (fst (convert_current (env_units env) (cw_temperature (current_of wd))))
                      (snd (convert_current (env_units env) (cw_temperature (current_of wd))))
         \<in> set (fst (snd (run_query env city fs)))"
  using assms by (auto simp: run_query_finished after_forecast_effects)

text \<open>
  C8. With Fahrenheit selected, one and the same conversion \<^verbatim>\<open>c * 9/5 + 32\<close> is applied
  to the current temperature and to the minimum and the maximum of every day shown (the
  first \<^verbatim>\<open>min(5, len(dates))\<close> days); a value that is \<^verbatim>\<open>None\<close> stays \<^verbatim>\<open>None\<close>. A
  current temperature of 32.5 is shown as 90.5 with the Fahrenheit unit.
\<close>

theorem C8_fahrenheit_conversion:
  "c_to_f (Finite x) = Finite (x * 9 / 5 + 32)
   \<and> c_to_f (Finite 32.5) = Finite 90.5
   \<and> convert_current Fahrenheit (Some c) = (Some (c_to_f c), deg_F)
   \<and> (env_units env = Fahrenheit \<longrightarrow>
        (\<forall>i < min 5 (length (or_empty (d_time daily))).
           forecast_block env u daily ! i =
             Show_day (env_date_label env (or_empty (d_time daily) ! i))
               (map_option c_to_f (list_get (or_empty (d_temperature_2m_min daily)) i))
               (map_option c_to_f (list_get (or_empty (d_temperature_2m_max daily)) i))
               u
               (list_get (or_empty (d_weathercode daily)) i)))
   \<and> (\<forall>location wd.
         env_units env = Fahrenheit
         \<and> geocode_city env city = Inr (Some location)
         \<and> get_weather_forecast env (loc_latitude location) (loc_longitude location) = Inr wd
         \<and> cw_temperature (current_of wd) = Some (Finite 32.5) \<longrightarrow>
         Show_current (Some (Finite 90.5)) deg_F \<in> set (fst (snd (run_query env city fs)))
         \<and> set (forecast_block env deg_F (daily_of wd))
             \<subseteq> set (fst (snd (run_query env city fs))))"
proof (intro conjI allI impI)
  show "c_to_f (Finite x) = Finite (x * 9 / 5 + 32)" by (rule c_to_f_finite)
  show "c_to_f (Finite 32.5) = Finite 90.5" by (simp add: c_to_f_def)
  show "convert_current Fahrenheit (Some c) = (Some (c_to_f c), deg_F)"
    by (rule convert_current_fahrenheit)
next
  fix i
  assume "env_units env = Fahrenheit" "i < min 5 (length (or_empty (d_time daily)))"
  then show "forecast_block env u daily ! i =
             Show_day (env_date_label env (or_empty (d_time daily) ! i))
               (map_option c_to_f (list_get (or_empty (d_temperature_2m_min daily)) i))
               (map_option c_to_f (list_get (or_empty (d_temperature_2m_max daily)) i))
               u
               (list_get (or_empty (d_weathercode daily)) i)"
    by (rule forecast_block_nth_fahrenheit)
next
  fix location wd
  assume h: "env_units env = Fahrenheit
         \<and> geocode_city env city = Inr (Some location)
         \<and> get_weather_forecast env (loc_latitude location) (loc_longitude location) = Inr wd
         \<and> cw_temperature (current_of wd) = Some (Finite 32.5)"
  then have c: "convert_current (env_units env) (cw_temperature (current_of wd))
      = (Some (Finite 90.5), deg_F)"
    by (simp add: convert_current_def c_to_f_def)
  from h forecast_block_in_query(2) [of env city location wd fs] c
  show "Show_current (Some (Finite 90.5)) deg_F \<in> set (fst (snd (run_query env city fs)))"
    by simp
  from h forecast_block_in_query(1) [of env city location wd fs] c
  show "set (forecast_block env deg_F (daily_of wd))
             \<subseteq> set (fst (snd (run_query env city fs)))"
    by simp
qed

theorem C8_fahrenheit_witness:
  "env_units example_env = Fahrenheit
   \<and> geocode_city example_env ''Delhi'' = Inr (Some delhi)
   \<and> get_weather_forecast example_env (loc_latitude delhi) (loc_longitude delhi)
       = Inr example_weather
   \<and> cw_temperature (current_of example_weather) = Some (Finite 32.5)
   \<and> Show_current (Some (Finite 90.5)) deg_F
       \<in> set (fst (snd (run_query example_env ''Delhi'' empty_fs)))
   \<and> (1::nat) < min 5 (length (or_empty (d_time (daily_of example_weather))))
   \<and> forecast_block example_env deg_F (daily_of example_weather) ! 1
       = Show_day ''2024-05-02'' (Some (Finite 68)) (Some (Finite 95)) deg_F (Some 2)
   \<and> Show_day ''2024-05-02'' (Some (Finite 68)) (Some (Finite 95)) deg_F (Some 2)
       \<in> set (fst (snd (run_query example_env ''Delhi'' empty_fs)))"
proof -
  have u: "env_units example_env = Fahrenheit"
    by (simp add: example_env_def)
  have g: "geocode_city example_env ''Delhi'' = Inr (Some delhi)"
    by (simp add: geocode_city_def example_env_def)
  have f: "get_weather_forecast example_env (loc_latitude delhi) (loc_longitude delhi)
       = Inr example_weather"
    by (simp add: get_weather_forecast_def example_env_def)
  have t: "cw_temperature (current_of example_weather) = Some (Finite 32.5)"
    by (simp add: current_of_def example_weather_def)
  have d: "or_empty (d_time (daily_of example_weather))
      = [''2024-05-01'', ''2024-05-02'', ''2024-05-03'', ''2024-05-04'', ''2024-05-05'',
         ''2024-05-06'']"
    by (simp add: daily_of_def example_weather_def or_empty_def)
  have n: "(1::nat) < min 5 (length (or_empty (d_time (daily_of example_weather))))"
    by (simp add: d)
  note c8 = C8_fahrenheit_conversion [where env = example_env and city = "''Delhi''"
      and fs = empty_fs and daily = "daily_of example_weather" and u = deg_F]
  from c8 u g f t
  have a: "Show_current (Some (Finite 90.5)) deg_F
       \<in> set (fst (snd (run_query example_env ''Delhi'' empty_fs)))"
    and s: "set (forecast_block example_env deg_F (daily_of example_weather))
             \<subseteq> set (fst (snd (run_query example_env ''Delhi'' empty_fs)))"
    by blast+
  from c8 u n
  have "forecast_block example_env deg_F (daily_of example_weather) ! 1 =
             Show_day (env_date_label example_env (or_empty (d_time (daily_of example_weather)) ! 1))
               (map_option c_to_f (list_get (or_empty (d_temperature_2m_min (daily_of example_weather))) 1))
               (map_option c_to_f (list_get (or_empty (d_temperature_2m_max (daily_of example_weather))) 1))
               deg_F
               (list_get (or_empty (d_weathercode (daily_of example_weather))) 1)"
    by blast
  then have b: "forecast_block example_env deg_F (daily_of example_weather) ! 1
       = Show_day ''2024-05-02'' (Some (Finite 68)) (Some (Finite 95)) deg_F (Some 2)"
    by (simp add: d)
      (simp add: daily_of_def example_weather_def or_empty_def list_get_def c_to_f_def
        example_env_def)
  have l: "length (forecast_block example_env deg_F (daily_of example_weather)) = 5"
    by (simp add: forecast_block_length d)
  then have "forecast_block example_env deg_F (daily_of example_weather) ! 1
      \<in> set (forecast_block example_env deg_F (daily_of example_weather))"
    by simp
  with b s have m: "Show_day ''2024-05-02'' (Some (Finite 68)) (Some (Finite 95)) deg_F (Some 2)
       \<in> set (fst (snd (run_query example_env ''Delhi'' empty_fs)))"
    by auto
  from u g f t a n b m show ?thesis by blast
qed

section \<open>Properties of the record logger\<close>

lemma save_absent:
  assumes "fs_files fs p = None" "fs_write_error fs p = None"
  shows "save_record_to_excel r p fs
     = ([], fs\<lparr>fs_files := (fs_files fs)(p \<mapsto> Workbook (DataFrame_of_record r))\<rparr>)"
  using assms by (simp add: save_record_to_excel_def os_path_exists_def to_excel_def)

lemma save_existing:
  assumes "fs_files fs p = Some (Workbook df)" "fs_write_error fs p = None"
  shows "save_record_to_excel r p fs
     = ([], fs\<lparr>fs_files := (fs_files fs)(p \<mapsto> Workbook (pd_concat df (DataFrame_of_record r)))\<rparr>)"
  using assms
  by (simp add: save_record_to_excel_def os_path_exists_def pd_read_excel_def to_excel_def)

lemma pd_concat_rows:
  "df_rows (pd_concat df (DataFrame_of_record r)) = df_rows df @ [row_of_record r]"
  by (simp add: pd_concat_def DataFrame_of_record_def)

lemma pd_concat_columns:
  "take (length (df_columns df)) (df_columns (pd_concat df b)) = df_columns df"
  by (simp add: pd_concat_def)

lemma append_all_existing:
  assumes "fs_files fs p = Some (Workbook df)" "fs_write_error fs p = None"
  shows "\<exists>df'. fs_files (append_all rs p fs) p = Some (Workbook df')
           \<and> df_rows df' = df_rows df @ map row_of_record rs
           \<and> take (length (df_columns df)) (df_columns df') = df_columns df"
  using assms
proof (induction rs arbitrary: fs df)
  case Nil
  then show ?case by simp
next
  case (Cons r rs)
  let ?df1 = "pd_concat df (DataFrame_of_record r)"
  let ?fs1 = "fs\<lparr>fs_files := (fs_files fs)(p \<mapsto> Workbook ?df1)\<rparr>"
  from Cons.prems have s: "save_record_to_excel r p fs = ([], ?fs1)"
    by (rule save_existing)
  have 1: "fs_files ?fs1 p = Some (Workbook ?df1)" by simp
  have 2: "fs_write_error ?fs1 p = None" using Cons.prems by simp
  from Cons.IH [OF 1 2] obtain df' where
    a: "fs_files (append_all rs p ?fs1) p = Some (Workbook df')"
    and b: "df_rows df' = df_rows ?df1 @ map row_of_record rs"
    and c: "take (length (df_columns ?df1)) (df_columns df') = df_columns ?df1"
    by blast
  have d: "take (length (df_columns df)) (df_columns df') = df_columns df"
  proof -
    have "take (length (df_columns df)) (df_columns df')
        = take (length (df_columns df)) (take (length (df_columns ?df1)) (df_columns df'))"
      by (simp add: pd_concat_def min_def)
    also have "\<dots> = take (length (df_columns df)) (df_columns ?df1)"
      by (simp only: c)
    also have "\<dots> = df_columns df"
      by (rule pd_concat_columns)
    finally show ?thesis .
  qed
  from a b d s show ?case
    by (simp add: pd_concat_rows)
qed

lemma append_all_absent:
  assumes "fs_files fs p = None" "fs_write_error fs p = None" "rs \<noteq> []"
  shows "\<exists>df. fs_files (append_all rs p fs) p = Some (Workbook df)
           \<and> df_rows df = map row_of_record rs
           \<and> take (length (hd rs)) (df_columns df) = map fst (hd rs)"
proof -
  from assms(3) obtain r rest where rs: "rs = r # rest" by (cases rs) auto
  let ?df1 = "DataFrame_of_record r"
  let ?fs1 = "fs\<lparr>fs_files := (fs_files fs)(p \<mapsto> Workbook ?df1)\<rparr>"
  from assms(1,2) have s: "save_record_to_excel r p fs = ([], ?fs1)"
    by (rule save_absent)
  have 1: "fs_files ?fs1 p = Some (Workbook ?df1)" by simp
  have 2: "fs_write_error ?fs1 p = None" using assms(2) by simp
  from append_all_existing [OF 1 2, of rest] obtain df' where
    a: "fs_files (append_all rest p ?fs1) p = Some (Workbook df')"
    and b: "df_rows df' = df_rows ?df1 @ map row_of_record rest"
    and c: "take (length (df_columns ?df1)) (df_columns df') = df_columns ?df1"
    by blast
  from a b c s rs show ?thesis
    by (simp add: DataFrame_of_record_def)
qed

text \<open>
  C6. Calling the logger once for each record of a non-empty list, starting from a file
  system in which the file is absent (and in which writing it does not fail), leaves a
  workbook with exactly as many rows as records, in call order, the first row being the
  first record, under the first record's columns. Each call on an existing workbook
  keeps every earlier row and the earlier columns in their order, and puts the new record
  last; a call on an absent file creates the workbook with only the new record.
\<close>

theorem C6_append_rows_in_order:
  "(fs_files fs p = None \<and> fs_write_error fs p = None \<and> records \<noteq> [] \<longrightarrow>
      (\<exists>df. fs_files (append_all records p fs) p = Some (Workbook df)
         \<and> length (df_rows df) = length records
         \<and> df_rows df = map row_of_record records
         \<and> hd (df_rows df) = row_of_record (hd records)
         \<and> take (length (hd records)) (df_columns df) = map fst (hd records)))
   \<and> (\<forall>df. fs_files fs p = Some (Workbook df) \<and> fs_write_error fs p = None \<longrightarrow>
      (\<exists>df'. save_record_to_excel r p fs
                = ([], fs\<lparr>fs_files := (fs_files fs)(p \<mapsto> Workbook df')\<rparr>)
         \<and> df_rows df' = df_rows df @ [row_of_record r]
         \<and> take (length (df_columns df)) (df_columns df') = df_columns df))
   \<and> (fs_files fs p = None \<and> fs_write_error fs p = None \<longrightarrow>
      save_record_to_excel r p fs
        = ([], fs\<lparr>fs_files := (fs_files fs)(p \<mapsto>
                 Workbook \<lparr>df_columns = map fst r, df_rows = [row_of_record r]\<rparr>)\<rparr>))"
proof (intro conjI allI impI)
  assume h: "fs_files fs p = None \<and> fs_write_error fs p = None \<and> records \<noteq> []"
  then obtain df where a: "fs_files (append_all records p fs) p = Some (Workbook df)"
    and b: "df_rows df = map row_of_record records"
    and c: "take (length (hd records)) (df_columns df) = map fst (hd records)"
    using append_all_absent [of fs p records] by blast
  from h b have "hd (df_rows df) = row_of_record (hd records)"
    by (simp add: hd_map)
  with a b c show "\<exists>df. fs_files (append_all records p fs) p = Some (Workbook df)
         \<and> length (df_rows df) = length records
         \<and> df_rows df = map row_of_record records
         \<and> hd (df_rows df) = row_of_record (hd records)
         \<and> take (length (hd records)) (df_columns df) = map fst (hd records)"
    by simp
next
  fix df
  assume h: "fs_files fs p = Some (Workbook df) \<and> fs_write_error fs p = None"
  then have "save_record_to_excel r p fs
     = ([], fs\<lparr>fs_files := (fs_files fs)(p \<mapsto> Workbook (pd_concat df (DataFrame_of_record r)))\<rparr>)"
    by (simp add: save_existing)
  then show "\<exists>df'. save_record_to_excel r p fs
                = ([], fs\<lparr>fs_files := (fs_files fs)(p \<mapsto> Workbook df')\<rparr>)
         \<and> df_rows df' = df_rows df @ [row_of_record r]
         \<and> take (length (df_columns df)) (df_columns df') = df_columns df"
    using pd_concat_rows pd_concat_columns by blast
next
  assume "fs_files fs p = None \<and> fs_write_error fs p = None"
  then show "save_record_to_excel r p fs
        = ([], fs\<lparr>fs_files := (fs_files fs)(p \<mapsto>
                 Workbook \<lparr>df_columns = map fst r, df_rows = [row_of_record r]\<rparr>)\<rparr>)"
    by (simp add: save_absent DataFrame_of_record_def)
qed

theorem C6_append_witness:
  "fs_files empty_fs ''weather_records.xlsx'' = None
   \<and> fs_write_error empty_fs ''weather_records.xlsx'' = None
   \<and> (\<exists>df. fs_files
              (append_all
                 [[(''City'', Some (CStr ''Delhi'')), (''US AQI'', Some (CNum (Finite 175)))],
                  [(''City'', Some (CStr ''Pune'')), (''US AQI'', None)]]
                 ''weather_records.xlsx'' empty_fs)
              ''weather_records.xlsx'' = Some (Workbook df)
         \<and> length (df_rows df) = 2
         \<and> hd (df_rows df) ''City'' = Some (CStr ''Delhi'')
         \<and> hd (df_rows df) ''US AQI'' = Some (CNum (Finite 175))
         \<and> (df_rows df ! 1) ''City'' = Some (CStr ''Pune'')
         \<and> (df_rows df ! 1) ''US AQI'' = None
         \<and> take 2 (df_columns df) = [''City'', ''US AQI''])"
proof -
  let ?p = "''weather_records.xlsx''"
  let ?r1 = "[(''City'', Some (CStr ''Delhi'')), (''US AQI'', Some (CNum (Finite 175)))]"
  let ?r2 = "[(''City'', Some (CStr ''Pune'')), (''US AQI'', None)]"
  have h: "fs_files empty_fs ?p = None \<and> fs_write_error empty_fs ?p = None \<and> [?r1, ?r2] \<noteq> []"
    by (simp add: empty_fs_def)
  from h C6_append_rows_in_order [where fs = empty_fs and p = ?p and records = "[?r1, ?r2]"]
  obtain df where a: "fs_files (append_all [?r1, ?r2] ?p empty_fs) ?p = Some (Workbook df)"
    and b: "length (df_rows df) = length [?r1, ?r2]"
    and c: "df_rows df = map row_of_record [?r1, ?r2]"
    and d: "take (length (hd [?r1, ?r2])) (df_columns df) = map fst (hd [?r1, ?r2])"
    by blast
  from b have b': "length (df_rows df) = 2" by simp
  from c have c1: "hd (df_rows df) ''City'' = Some (CStr ''Delhi'')"
    and c2: "hd (df_rows df) ''US AQI'' = Some (CNum (Finite 175))"
    and c3: "(df_rows df ! 1) ''City'' = Some (CStr ''Pune'')"
    and c4: "(df_rows df ! 1) ''US AQI'' = None"
    by (simp_all add: row_of_record_def dict_get_def)
  from d have d': "take 2 (df_columns df) = [''City'', ''US AQI'']"
    by (simp add: numeral_2_eq_2)
  from h a b' c1 c2 c3 c4 d' show ?thesis by blast
qed

section \<open>Properties of error propagation\<close>











section \<open>Properties of the latest-sample extraction\<close>

lemma safe_get_series_at: "safe_get h key i = series_at h key i"
  by (cases "h_series h key") (auto simp: safe_get_def series_at_def)

lemma latest_aqi_null_hourly:
  "aq_hourly aq = Null \<Longrightarrow> latest_aqi aq = Inl attribute_error_get"
  by (simp add: latest_aqi_def)

lemma latest_aqi_no_times:
  assumes "aq_hourly aq = Missing
     \<or> (\<exists>h. aq_hourly aq = Value h
            \<and> (h_time h = Missing \<or> h_time h = Null \<or> h_time h = Value []))"
  shows "latest_aqi aq = Inr (None, Map.empty)"
  using assms by (auto simp: latest_aqi_def)

lemma latest_aqi_null_us_aqi:
  assumes "aq_hourly aq = Value h" "h_time h = Value ts" "ts \<noteq> []"
    "h_series h ''us_aqi'' = Null"
  shows "latest_aqi aq = Inl type_error_len"
  using assms by (simp add: latest_aqi_def)

lemma latest_aqi_times:
  assumes "aq_hourly aq = Value h" "h_time h = Value ts" "ts \<noteq> []"
    "h_series h ''us_aqi'' \<noteq> Null"
  shows "latest_aqi aq =
     Inr (series_at h ''us_aqi'' (length ts - 1),
          [''pm2_5'' \<mapsto> series_at h ''pm2_5'' (length ts - 1),
           ''pm10'' \<mapsto> series_at h ''pm10'' (length ts - 1),
           ''ozone'' \<mapsto> series_at h ''ozone'' (length ts - 1),
           ''nitrogen_dioxide'' \<mapsto> series_at h ''nitrogen_dioxide'' (length ts - 1),
           ''carbon_monoxide'' \<mapsto> series_at h ''carbon_monoxide'' (length ts - 1)])"
proof (cases "h_series h ''us_aqi''")
  case Missing
  with assms show ?thesis
    by (simp add: latest_aqi_def Let_def safe_get_series_at) (simp add: series_at_def)
next
  case Null
  with assms show ?thesis by simp
next
  case (Value xs)
  with assms show ?thesis
    by (simp add: latest_aqi_def Let_def safe_get_series_at) (simp add: series_at_def)
qed

text \<open>
  C9. The claim says that for a time array of length n > 0 \<^verbatim>\<open>latest_aqi\<close> returns the
  \<^verbatim>\<open>us_aqi\<close> entry and each pollutant entry at index n - 1, and \<^verbatim>\<open>None\<close> without error
  for a series that is not long enough. The program does so for the five pollutant series,
  which go through \<^verbatim>\<open>_safe_get\<close> and its \<^verbatim>\<open>not arr\<close> test, but not for \<^verbatim>\<open>us_aqi\<close>: for
  a response with one hour whose \<^verbatim>\<open>us_aqi\<close> and \<^verbatim>\<open>pm2_5\<close> are both \<^verbatim>\<open>null\<close>,
  \<^verbatim>\<open>_safe_get\<close> gives \<^verbatim>\<open>None\<close> for either key, while \<^verbatim>\<open>latest_aqi\<close> raises the TypeError
  of \<^verbatim>\<open>len(None)\<close>. With \<^verbatim>\<open>us_aqi\<close> missing instead of \<^verbatim>\<open>null\<close> the same response gives
  \<^verbatim>\<open>None\<close> and the five keys.
\<close>

theorem C9_null_us_aqi_raises:
  "latest_aqi
     \<lparr>aq_hourly = Value \<lparr>h_time = Value [''2024-05-01T10:00''],
                          h_series = (\<lambda>k. Missing)(''us_aqi'' := Null, ''pm2_5'' := Null)\<rparr>\<rparr>
     = Inl type_error_len
   \<and> safe_get \<lparr>h_time = Value [''2024-05-01T10:00''],
                h_series = (\<lambda>k. Missing)(''us_aqi'' := Null, ''pm2_5'' := Null)\<rparr> ''us_aqi'' 0
     = None
   \<and> safe_get \<lparr>h_time = Value [''2024-05-01T10:00''],
                h_series = (\<lambda>k. Missing)(''us_aqi'' := Null, ''pm2_5'' := Null)\<rparr> ''pm2_5'' 0
     = None
   \<and> latest_aqi
       \<lparr>aq_hourly = Value \<lparr>h_time = Value [''2024-05-01T10:00''],
                            h_series = (\<lambda>k. Missing)(''pm2_5'' := Null)\<rparr>\<rparr>
     = Inr (None,
            [''pm2_5'' \<mapsto> None, ''pm10'' \<mapsto> None, ''ozone'' \<mapsto> None,
             ''nitrogen_dioxide'' \<mapsto> None, ''carbon_monoxide'' \<mapsto> None])"
  by (simp add: latest_aqi_def safe_get_def)

section \<open>Properties of the default tips\<close>

lemma query_tips_present:
  "query_tips (Some t0) (Some c0) a (Some w0) = eco_tips t0 c0 a (Some w0)"
  by (simp add: query_tips_def)

lemma query_tips_defaults:
  "query_tips None c a w = query_tips (Some (Finite 25)) c a w"
  "query_tips t None a w = query_tips t (Some 1) a w"
  "query_tips t c a None = query_tips t c a (Some (Finite 0))"
  by (simp_all add: query_tips_def)

lemma query_tips_absent_current:
  "query_tips None None a None = [tip_comfortable, tip_clear_sky, tip_daylight] @ aqi_tips a"
  by (simp add: query_tips_def eco_tips_parts temperature_tips_def weather_tips_def
      wind_tips_def)

lemma current_of_absent:
  "wd_current_weather wd = None \<Longrightarrow>
   cw_temperature (current_of wd) = None \<and> cw_weathercode (current_of wd) = None
   \<and> cw_windspeed (current_of wd) = None"
  by (simp add: current_of_def)

lemma save_no_tip: "Show_tip x \<notin> set (fst (save_record_to_excel r p fs))"
  by (auto simp: save_record_to_excel_def os_path_exists_def pd_read_excel_def to_excel_def
      Let_def split: option.split excel_file.split sum.split)

lemma aqi_block_no_tip: "Show_tip x \<notin> set (aqi_block env a p d)"
  by (auto simp: aqi_block_def split: option.split)

lemma forecast_block_no_tip: "Show_tip x \<notin> set (forecast_block env u d)"
  by (auto simp: forecast_block_def Let_def)

lemma after_forecast_tips:
  "Show_tip x \<in> set (fst (after_forecast env location wd fs)) \<longleftrightarrow>
   x \<in> set (query_tips (cw_temperature (current_of wd)) (cw_weathercode (current_of wd))
              (fst (air_quality_block env (loc_latitude location) (loc_longitude location)))
              (cw_windspeed (current_of wd)))"
  by (auto simp: after_forecast_effects save_no_tip aqi_block_no_tip forecast_block_no_tip)

text \<open>
  C10. The call of \<^verbatim>\<open>eco_tips\<close> in the script passes on each current-weather field that
  is present and replaces only a missing one: a missing temperature by 25.0, a missing
  weather code by 1, a missing wind speed by 0.0, each whatever the other fields are.
  With the whole current-weather block absent the tips are those of (25.0, 1, AQI, 0.0):
  the comfortable-temperature tip, the clear-sky tip and the daylight tip, then the AQI
  tips. In a query whose forecast was fetched, the tips shown are exactly the tips of this
  call on the fields of the response; when the response has no current-weather block the
  query runs to its end and shows the clear-sky and daylight tips.
\<close>

theorem C10_default_tips:
  "query_tips (Some t0) (Some c0) a (Some w0) = eco_tips t0 c0 a (Some w0)
   \<and> query_tips None c a w = query_tips (Some (Finite 25)) c a w
   \<and> query_tips t None a w = query_tips t (Some 1) a w
   \<and> query_tips t c a None = query_tips t c a (Some (Finite 0))
   \<and> query_tips None None a None = eco_tips (Finite 25) 1 a (Some (Finite 0))
   \<and> query_tips None None a None = [tip_comfortable, tip_clear_sky, tip_daylight] @ aqi_tips a
   \<and> (\<forall>location wd.
         geocode_city env city = Inr (Some location)
         \<and> get_weather_forecast env (loc_latitude location) (loc_longitude location) = Inr wd \<longrightarrow>
         fst (run_query env city fs) = Finished
         \<and> (\<forall>x. Show_tip x \<in> set (fst (snd (run_query env city fs))) \<longleftrightarrow>
                  x \<in> set (query_tips (cw_temperature (current_of wd))
                             (cw_weathercode (current_of wd))
                             (fst (air_quality_block env (loc_latitude location)
                                     (loc_longitude location)))
                             (cw_windspeed (current_of wd)))))
   \<and> (\<forall>location wd.
         geocode_city env city = Inr (Some location)
         \<and> get_weather_forecast env (loc_latitude location) (loc_longitude location) = Inr wd
         \<and> wd_current_weather wd = None \<longrightarrow>
         fst (run_query env city fs) = Finished
         \<and> Show_tip tip_clear_sky \<in> set (fst (snd (run_query env city fs)))
         \<and> Show_tip tip_daylight \<in> set (fst (snd (run_query env city fs))))"
proof (intro conjI allI impI)
  show "query_tips (Some t0) (Some c0) a (Some w0) = eco_tips t0 c0 a (Some w0)"
    by (rule query_tips_present)
  show "query_tips None c a w = query_tips (Some (Finite 25)) c a w"
    by (rule query_tips_defaults)
  show "query_tips t None a w = query_tips t (Some 1) a w"
    by (rule query_tips_defaults)
  show "query_tips t c a None = query_tips t c a (Some (Finite 0))"
    by (rule query_tips_defaults)
  show "query_tips None None a None = eco_tips (Finite 25) 1 a (Some (Finite 0))"
    by (simp add: query_tips_def)
  show "query_tips None None a None = [tip_comfortable, tip_clear_sky, tip_daylight] @ aqi_tips a"
    by (rule query_tips_absent_current)
next
  fix location wd
  assume h: "geocode_city env city = Inr (Some location)
         \<and> get_weather_forecast env (loc_latitude location) (loc_longitude location) = Inr wd"
  then have r: "run_query env city fs
     = (Finished,
        [Http_geocode city, Http_forecast (loc_latitude location) (loc_longitude location)]
          @ fst (after_forecast env location wd fs),
        snd (after_forecast env location wd fs))"
    by (simp add: run_query_finished)
  show "fst (run_query env city fs) = Finished"
    by (simp add: r)
  show "Show_tip x \<in> set (fst (snd (run_query env city fs))) \<longleftrightarrow>
          x \<in> set (query_tips (cw_temperature (current_of wd))
                     (cw_weathercode (current_of wd))
                     (fst (air_quality_block env (loc_latitude location)
                             (loc_longitude location)))
                     (cw_windspeed (current_of wd)))" for x
    by (simp add: r after_forecast_tips)
next
  fix location wd
  assume h: "geocode_city env city = Inr (Some location)
         \<and> get_weather_forecast env (loc_latitude location) (loc_longitude location) = Inr wd
         \<and> wd_current_weather wd = None"
  then have r: "run_query env city fs
     = (Finished,
        [Http_geocode city, Http_forecast (loc_latitude location) (loc_longitude location)]
          @ fst (after_forecast env location wd fs),
        snd (after_forecast env location wd fs))"
    by (simp add: run_query_finished)
  from h have c: "cw_temperature (current_of wd) = None \<and> cw_weathercode (current_of wd) = None
   \<and> cw_windspeed (current_of wd) = None"
    by (simp add: current_of_absent)
  show "fst (run_query env city fs) = Finished"
    by (simp add: r)
  show "Show_tip tip_clear_sky \<in> set (fst (snd (run_query env city fs)))"
    by (simp add: r after_forecast_tips c query_tips_absent_current)
  show "Show_tip tip_daylight \<in> set (fst (snd (run_query env city fs)))"
    by (simp add: r after_forecast_tips c query_tips_absent_current)
qed

theorem C10_default_tips_witness:
  "geocode_city
     (example_env\<lparr>env_http_forecast := (\<lambda>lat lon. Inr \<lparr>wd_current_weather = None, wd_daily = None\<rparr>)\<rparr>)
     ''Delhi'' = Inr (Some delhi)
   \<and> get_weather_forecast
       (example_env\<lparr>env_http_forecast := (\<lambda>lat lon. Inr \<lparr>wd_current_weather = None, wd_daily = None\<rparr>)\<rparr>)
       (loc_latitude delhi) (loc_longitude delhi)
       = Inr \<lparr>wd_current_weather = None, wd_daily = None\<rparr>
   \<and> fst (run_query
       (example_env\<lparr>env_http_forecast := (\<lambda>lat lon. Inr \<lparr>wd_current_weather = None, wd_daily = None\<rparr>)\<rparr>)
       ''Delhi'' empty_fs) = Finished
   \<and> Show_tip tip_clear_sky \<in> set (fst (snd (run_query
       (example_env\<lparr>env_http_forecast := (\<lambda>lat lon. Inr \<lparr>wd_current_weather = None, wd_daily = None\<rparr>)\<rparr>)
       ''Delhi'' empty_fs)))
   \<and> Show_tip tip_daylight \<in> set (fst (snd (run_query
       (example_env\<lparr>env_http_forecast := (\<lambda>lat lon. Inr \<lparr>wd_current_weather = None, wd_daily = None\<rparr>)\<rparr>)
       ''Delhi'' empty_fs)))
   \<and> query_tips None (Some 61) None (Some (Finite 10)) = [tip_comfortable, tip_rainy, tip_windy]
   \<and> Show_tip tip_rainy \<in> set (fst (snd (run_query
       (example_env\<lparr>env_http_forecast := (\<lambda>lat lon. Inr
            \<lparr>wd_current_weather =
               Some \<lparr>cw_temperature = None, cw_windspeed = Some (Finite 10),
                     cw_weathercode = Some 61, cw_time = None\<rparr>,
             wd_daily = None\<rparr>),
          env_http_air_quality := (\<lambda>lat lon. Inl (Exception ''timed out''))\<rparr>)
       ''Delhi'' empty_fs)))
   \<and> Show_tip tip_clear_sky \<notin> set (fst (snd (run_query
       (example_env\<lparr>env_http_forecast := (\<lambda>lat lon. Inr
            \<lparr>wd_current_weather =
               Some \<lparr>cw_temperature = None, cw_windspeed = Some (Finite 10),
                     cw_weathercode = Some 61, cw_time = None\<rparr>,
             wd_daily = None\<rparr>),
          env_http_air_quality := (\<lambda>lat lon. Inl (Exception ''timed out''))\<rparr>)
       ''Delhi'' empty_fs)))"
proof -
  let ?wd = "\<lparr>wd_current_weather = None, wd_daily = None\<rparr>"
  let ?env = "example_env\<lparr>env_http_forecast := (\<lambda>lat lon. Inr ?wd)\<rparr>"
  let ?wp = "\<lparr>wd_current_weather =
               Some \<lparr>cw_temperature = None, cw_windspeed = Some (Finite 10),
                     cw_weathercode = Some 61, cw_time = None\<rparr>,
             wd_daily = None\<rparr>"
  let ?ep = "example_env\<lparr>env_http_forecast := (\<lambda>lat lon. Inr ?wp),
          env_http_air_quality := (\<lambda>lat lon. Inl (Exception ''timed out''))\<rparr>"
  have h: "geocode_city ?env ''Delhi'' = Inr (Some delhi)
     \<and> get_weather_forecast ?env (loc_latitude delhi) (loc_longitude delhi) = Inr ?wd
     \<and> wd_current_weather ?wd = None"
    by (simp add: geocode_city_def get_weather_forecast_def example_env_def)
  from h C10_default_tips [where env = ?env and city = "''Delhi''" and fs = empty_fs]
  have 1: "fst (run_query ?env ''Delhi'' empty_fs) = Finished
     \<and> Show_tip tip_clear_sky \<in> set (fst (snd (run_query ?env ''Delhi'' empty_fs)))
     \<and> Show_tip tip_daylight \<in> set (fst (snd (run_query ?env ''Delhi'' empty_fs)))"
    by blast
  from C10_default_tips [where c = "Some 61" and a = None and w = "Some (Finite 10)"
      and ?t0.0 = "Finite 25" and ?c0.0 = 61 and ?w0.0 = "Finite 10"]
  have "query_tips None (Some 61) None (Some (Finite 10))
      = eco_tips (Finite 25) 61 None (Some (Finite 10))"
    by presburger
  then have 2: "query_tips None (Some 61) None (Some (Finite 10))
      = [tip_comfortable, tip_rainy, tip_windy]"
    by (simp add: eco_tips_def)
  have hp: "geocode_city ?ep ''Delhi'' = Inr (Some delhi)
     \<and> get_weather_forecast ?ep (loc_latitude delhi) (loc_longitude delhi) = Inr ?wp"
    by (simp add: geocode_city_def get_weather_forecast_def example_env_def)
  have ap: "fst (air_quality_block ?ep (loc_latitude delhi) (loc_longitude delhi)) = None"
    by (simp add: air_quality_block_def get_air_quality_def)
  have cp: "cw_temperature (current_of ?wp) = None
     \<and> cw_weathercode (current_of ?wp) = Some 61
     \<and> cw_windspeed (current_of ?wp) = Some (Finite 10)"
    by (simp add: current_of_def)
  from hp C10_default_tips [where env = ?ep and city = "''Delhi''" and fs = empty_fs]
  have "\<forall>x. Show_tip x \<in> set (fst (snd (run_query ?ep ''Delhi'' empty_fs))) \<longleftrightarrow>
          x \<in> set (query_tips (cw_temperature (current_of ?wp))
                     (cw_weathercode (current_of ?wp))
                     (fst (air_quality_block ?ep (loc_latitude delhi) (loc_longitude delhi)))
                     (cw_windspeed (current_of ?wp)))"
    by blast
  then have m: "Show_tip x \<in> set (fst (snd (run_query ?ep ''Delhi'' empty_fs))) \<longleftrightarrow>
      x \<in> set [tip_comfortable, tip_rainy, tip_windy]" for x
    by (simp only: ap cp 2)
  have 3: "Show_tip tip_rainy \<in> set (fst (snd (run_query ?ep ''Delhi'' empty_fs)))"
    by (simp add: m)
  from tips_distinct have "tip_clear_sky \<notin> set [tip_comfortable, tip_rainy, tip_windy]"
    by auto
  then have 4: "Show_tip tip_clear_sky \<notin> set (fst (snd (run_query ?ep ''Delhi'' empty_fs)))"
    by (simp only: m not_False_eq_True)
  from h 1 2 3 4 show ?thesis by blast
qed

end
